theory Spec2Isabelle
  imports Main
begin

section \<open>Text values\<close>

text \<open>
  A Python \<open>str\<close> is modelled as a \<open>string\<close> whose characters are the code points
  below 256, and \<open>bytes\<close> as a \<open>string\<close> of octets. The three text operations the
  program uses (\<open>strip\<close>, \<open>lower\<close>, \<open>upper\<close>) are written out for that range as
  Python defines them.
\<close>

definition isspace :: "char \<Rightarrow> bool" where
  \<comment> \<open>\<open>str.isspace\<close> on one character: TAB..CR, FS..US, SPACE, NEL, NBSP.\<close>
  "isspace c =
     (let n = (of_char c :: nat)
      in (9 \<le> n \<and> n \<le> 13) \<or> (28 \<le> n \<and> n \<le> 32) \<or> n = 133 \<or> n = 160)"

definition strip :: "string \<Rightarrow> string" where
  \<comment> \<open>\<open>s.strip()\<close>\<close>
  "strip s = rev (dropWhile isspace (rev (dropWhile isspace s)))"

definition lower_char :: "char \<Rightarrow> char" where
  "lower_char c =
     (let n = (of_char c :: nat)
      in if (65 \<le> n \<and> n \<le> 90) \<or> (192 \<le> n \<and> n \<le> 222 \<and> n \<noteq> 215)
         then char_of (n + 32) else c)"

definition lower :: "string \<Rightarrow> string" where
  \<comment> \<open>\<open>s.lower()\<close>\<close>
  "lower s = map lower_char s"

definition upper_char :: "char \<Rightarrow> string" where
  \<comment> \<open>The upper-case forms of U+00B5 and U+00FF lie above 255; they are left in
      place here, which no comparison of the program can observe.\<close>
  "upper_char c =
     (let n = (of_char c :: nat)
      in if (97 \<le> n \<and> n \<le> 122) \<or> (224 \<le> n \<and> n \<le> 254 \<and> n \<noteq> 247)
         then [char_of (n - 32)]
         else if n = 223 then ''SS'' else [c])"

definition upper :: "string \<Rightarrow> string" where
  \<comment> \<open>\<open>s.upper()\<close>\<close>
  "upper s = concat (map upper_char s)"

fun contains :: "string \<Rightarrow> string \<Rightarrow> bool" where
  \<comment> \<open>\<open>needle in hay\<close>\<close>
  "contains needle [] = (needle = [])"
| "contains needle (c # cs) =
     (take (length needle) (c # cs) = needle \<or> contains needle cs)"

definition utf8_char :: "char \<Rightarrow> string" where
  "utf8_char c =
     (let n = (of_char c :: nat)
      in if n < 128 then [c]
         else [char_of (192 + n div 64), char_of (128 + n mod 64)])"

definition encode_utf8 :: "string \<Rightarrow> string" where
  \<comment> \<open>\<open>s.encode("utf-8")\<close>\<close>
  "encode_utf8 s = concat (map utf8_char s)"

section \<open>Fingerprinting\<close>

text \<open>
  The digest itself (\<open>hashlib.sha256(b).hexdigest()\<close>) is a parameter \<open>H\<close> of every
  definition that hashes: a function from octets to the hexadecimal digest.
\<close>

type_synonym digest = "string \<Rightarrow> string"

definition sha256_bytes :: "digest \<Rightarrow> string \<Rightarrow> string" where
  "sha256_bytes H b = H b"

definition sha256_str :: "digest \<Rightarrow> string \<Rightarrow> string" where
  "sha256_str H s = sha256_bytes H (encode_utf8 s)"

fun sub_fragment :: "string \<Rightarrow> string" where
  \<comment> \<open>\<open>re.sub(r"#.*$", "", url)\<close>: the leftmost \<open>#\<close> from which no line feed
      follows up to the end of the text starts the match, which runs to the end.\<close>
  "sub_fragment [] = []"
| "sub_fragment (c # cs) =
     (if c = CHR ''#'' \<and> CHR 0x0A \<notin> set cs then [] else c # sub_fragment cs)"

definition normalize_url :: "string \<Rightarrow> string" where
  "normalize_url url = sub_fragment (strip url)"

definition detect_platform :: "string \<Rightarrow> string option" where
  "detect_platform url =
     (let u = lower url
      in if contains ''tiktok.com'' u then Some ''tt''
         else if contains ''instagram.com'' u then Some ''ig''
         else if contains ''facebook.com'' u \<or> contains ''fb.watch'' u then Some ''fb''
         else None)"

section \<open>Documents and collections\<close>

type_synonym timestamp = int
  \<comment> \<open>a reading of \<open>now_utc()\<close>, in the store's unit (milliseconds)\<close>

definition one_day :: int where
  \<comment> \<open>\<open>timedelta(days=1)\<close>\<close>
  "one_day = 86400000"

type_synonym object_id = string
  \<comment> \<open>an \<open>ObjectId\<close>, as the 24 lower-case hexadecimal digits \<open>str\<close> gives\<close>

datatype py_error = InvalidId | KeyError | TypeError

definition is_hex :: "char \<Rightarrow> bool" where
  "is_hex c =
     (let n = (of_char c :: nat)
      in (48 \<le> n \<and> n \<le> 57) \<or> (65 \<le> n \<and> n \<le> 70) \<or> (97 \<le> n \<and> n \<le> 102))"

definition oid :: "string \<Rightarrow> py_error + object_id" where
  \<comment> \<open>\<open>_oid(s)\<close>, that is \<open>bson.ObjectId(s)\<close>: a text of 24 hexadecimal digits is an
      id (in either letter case), anything else raises \<open>InvalidId\<close>.\<close>
  "oid s = (if length s = 24 \<and> list_all is_hex s then Inr (lower s) else Inl InvalidId)"

record submission =
  s_id :: object_id
  s_user_id :: int
  s_usernameLower :: string
  s_platform :: string
  s_post_url :: string
  s_post_hash :: string
  s_ugc_code :: string
  s_caption :: string
  s_proof_sha256 :: string
  s_tier_claimed :: string
  s_status :: string
  s_created_at :: timestamp
  s_updated_at :: timestamp
  s_metrics_proof_sha256 :: "string option"
  s_validated_at :: "timestamp option"

text \<open>
  Code documents are written by another program; the fields this one reads with
  \<open>doc.get\<close> may be absent.
\<close>

record code_doc =
  c_code :: string
  c_user_id :: "int option"
  c_status :: "string option"
  c_used_at :: "timestamp option"
  c_ugc_id :: "string option"

record ledger_entry =
  l_user_id :: int
  l_ugc_id :: string
  l_tier :: string
  l_amount :: int
  l_drop_id :: string
  l_status :: string
  l_created_at :: timestamp
  l_claimable_after :: timestamp
  l_claimed_at :: "timestamp option"
  l_voucher_code :: "string option"

text \<open>
  A collection is the list of its documents in insertion order. The three collections
  are \<open>ugc_col\<close>, \<open>code_col\<close> and \<open>ledger_col\<close> of the source.
\<close>

record world =
  ugc_col :: "submission list"
  code_col :: "code_doc list"
  ledger_col :: "ledger_entry list"

record config =
  T1_DROP_ID :: string
  T2_DROP_ID :: string
  MAX_SUBMISSIONS_PER_DAY :: int

subsection \<open>Store operations\<close>

definition find_one :: "('a \<Rightarrow> bool) \<Rightarrow> 'a list \<Rightarrow> 'a option" where
  \<comment> \<open>\<open>col.find_one(filter)\<close>: the first matching document\<close>
  "find_one P col = find P col"

fun update_one :: "('a \<Rightarrow> bool) \<Rightarrow> ('a \<Rightarrow> 'a) \<Rightarrow> 'a list \<Rightarrow> 'a list" where
  \<comment> \<open>\<open>col.update_one(filter, {"$set": ...})\<close>: the first matching document is
      updated, and nothing happens when none matches\<close>
  "update_one P f [] = []"
| "update_one P f (d # ds) = (if P d then f d # ds else d # update_one P f ds)"

definition upsert_set_on_insert :: "('a \<Rightarrow> bool) \<Rightarrow> 'a \<Rightarrow> 'a list \<Rightarrow> 'a list" where
  \<comment> \<open>\<open>col.update_one(filter, {"$setOnInsert": doc}, upsert=True)\<close>\<close>
  "upsert_set_on_insert P doc col = (if list_ex P col then col else col @ [doc])"

definition count_documents :: "('a \<Rightarrow> bool) \<Rightarrow> 'a list \<Rightarrow> int" where
  "count_documents P col = int (length (filter P col))"

definition insert_one :: "submission \<Rightarrow> submission list \<Rightarrow> submission list option" where
  \<comment> \<open>\<open>ugc_col.insert_one(doc)\<close> under the unique indexes on \<open>_id\<close> and on
      \<open>(platform, post_hash)\<close> (\<open>ensure_indexes\<close>); \<open>None\<close> is \<open>DuplicateKeyError\<close>.\<close>
  "insert_one doc col =
     (if list_ex (\<lambda>d. s_id d = s_id doc \<or>
                       (s_platform d = s_platform doc \<and> s_post_hash d = s_post_hash doc)) col
      then None else Some (col @ [doc]))"

section \<open>Rate limiter and code redeemer\<close>

definition daily_submission_count :: "timestamp \<Rightarrow> int \<Rightarrow> submission list \<Rightarrow> int" where
  \<comment> \<open>\<open>_daily_submission_count\<close>; \<open>now\<close> is its reading of the clock\<close>
  "daily_submission_count now user_id ugc =
     (let start = now - one_day
      in count_documents (\<lambda>d. s_user_id d = user_id \<and> s_created_at d \<ge> start) ugc)"

datatype code_msg = CodeNotFound | CodeNotOwned | CodeAlreadyUsed | OK

definition validate_code :: "int \<Rightarrow> string \<Rightarrow> code_doc list \<Rightarrow> bool \<times> code_msg" where
  "validate_code user_id code0 codes =
     (let code = strip code0
      in case find_one (\<lambda>d. c_code d = code) codes of
           None \<Rightarrow> (False, CodeNotFound)
         | Some doc \<Rightarrow>
             if (case c_user_id doc of None \<Rightarrow> - 1 | Some u \<Rightarrow> u) \<noteq> user_id
             then (False, CodeNotOwned)
             else if c_status doc \<in> {Some ''used'', Some ''expired''}
             then (False, CodeAlreadyUsed)
             else (True, OK))"

section \<open>Workflow engine\<close>

subsection \<open>Messages, session data, replies\<close>

datatype chat_type = PRIVATE | GROUP | SUPERGROUP | CHANNEL

text \<open>
  What a handler reads of the incoming \<open>Update\<close>: the chat's type (\<open>None\<close> when the
  update has no chat), the sender's id and username, the message's text, the octets of
  its largest photo (\<open>None\<close> when it carries no photo), and the command's arguments.
\<close>

record update =
  effective_chat :: "chat_type option"
  effective_user_id :: int
  effective_username :: "string option"
  message_text :: "string option"
  message_photo :: "string option"
  args :: "string list"

text \<open>\<open>context.user_data\<close>: a key is \<open>None\<close> until a handler stores it.\<close>

record user_data =
  ud_platform :: "string option"
  ud_post_url :: "string option"
  ud_post_hash :: "string option"
  ud_ugc_code :: "string option"
  ud_caption :: "string option"
  ud_proof_sha256 :: "string option"
  ud_metrics_ugc_id :: "string option"

datatype conv_state =
  S_PLATFORM_URL | S_CODE | S_CAPTION | S_PROOF | S_TIER | S_METRICS_PROOF | END

text \<open>
  One constructor for each text a handler sends with \<open>reply_text\<close>, carrying the values
  the text interpolates:
  \<^item> \<open>DmOnly\<close>: "DM me to submit/claim UGC proof. ..."
  \<^item> \<open>DailyLimit\<close>: "Daily submission limit reached. Try again tomorrow."
  \<^item> \<open>AskUrl\<close>: "Send your post URL (FB/IG/TikTok)."
  \<^item> \<open>InvalidUrl\<close>: "Invalid URL. Must be Facebook / Instagram / TikTok link. Send again."
  \<^item> \<open>AskCode\<close>: "Send your UGC code (from community bot)."
  \<^item> \<open>InvalidCode msg\<close>: the message of \<open>validate_code\<close>, then "Send a valid UGC code."
  \<^item> \<open>AskCaption\<close>, \<open>CaptionTooShort\<close>, \<open>AskProof\<close>, \<open>NotAPhoto\<close>, \<open>AskTier\<close>,
    \<open>InvalidTier\<close>: the prompts and retries of the caption, proof and tier steps
  \<^item> \<open>AlreadySubmitted i\<close>: "This post was already submitted. UGC ID: i ..."
  \<^item> \<open>SubmittedValidatedT1 i\<close>: "Submitted & validated (T1). UGC ID: i ..."
  \<^item> \<open>SubmittedT2Pending i\<close>: "Submitted (T2 pending metrics). UGC ID: i ..."
  \<^item> \<open>MetricsUsage\<close>: "Usage: /metrics <ugc_id>"
  \<^item> \<open>AskMetricsProof\<close>: "Upload ONE screenshot of the post metrics (photo)."
  \<^item> \<open>MissingUgcId\<close>: "Missing ugc_id. Use /metrics <ugc_id> again."
  \<^item> \<open>MetricsNotAPhoto\<close>: "Please upload as a photo. Try again."
  \<^item> \<open>UgcNotFound\<close>: "UGC not found for your account."
  \<^item> \<open>T2Validated i\<close>: "T2 validated. UGC ID: i ..."
  \<^item> \<open>StatusUsage\<close>: "Usage: /status <ugc_id>"
  \<^item> \<open>NotFound\<close>: "Not found."
  \<^item> \<open>StatusReport i platform tier status validated\<close>: the status report
\<close>

datatype reply =
  DmOnly | DailyLimit | AskUrl | InvalidUrl | AskCode | InvalidCode code_msg
| AskCaption | CaptionTooShort | AskProof | NotAPhoto | AskTier | InvalidTier
| AlreadySubmitted string | SubmittedValidatedT1 string | SubmittedT2Pending string
| MetricsUsage | AskMetricsProof | MissingUgcId | MetricsNotAPhoto | UgcNotFound
| T2Validated string
| StatusUsage | NotFound | StatusReport string string string string "timestamp option"

definition must_dm :: "update \<Rightarrow> bool" where
  \<comment> \<open>When it is \<open>False\<close> the source has sent \<open>DmOnly\<close>; the callers below return
      that reply.\<close>
  "must_dm upd = (\<not> (effective_chat upd \<noteq> None \<and> effective_chat upd \<noteq> Some PRIVATE))"

definition text_or_empty :: "update \<Rightarrow> string" where
  \<comment> \<open>\<open>update.message.text or ""\<close>\<close>
  "text_or_empty upd = (case message_text upd of None \<Rightarrow> [] | Some t \<Rightarrow> t)"

subsection \<open>The submit conversation\<close>

definition submit_cmd :: "config \<Rightarrow> timestamp \<Rightarrow> update \<Rightarrow> world \<Rightarrow> reply \<times> conv_state" where
  "submit_cmd cfg now upd w =
     (if \<not> must_dm upd then (DmOnly, END)
      else let user_id = effective_user_id upd
           in if daily_submission_count now user_id (ugc_col w) \<ge> MAX_SUBMISSIONS_PER_DAY cfg
              then (DailyLimit, END)
              else (AskUrl, S_PLATFORM_URL))"

definition submit_got_url :: "digest \<Rightarrow> update \<Rightarrow> user_data \<Rightarrow> reply \<times> conv_state \<times> user_data" where
  "submit_got_url H upd ud =
     (let url = normalize_url (text_or_empty upd)
      in case detect_platform url of
           None \<Rightarrow> (InvalidUrl, S_PLATFORM_URL, ud)
         | Some platform \<Rightarrow>
             (AskCode, S_CODE,
              ud\<lparr>ud_platform := Some platform,
                 ud_post_url := Some url,
                 ud_post_hash := Some (sha256_str H (platform @ '':'' @ lower url))\<rparr>))"

definition submit_got_code :: "update \<Rightarrow> user_data \<Rightarrow> world \<Rightarrow> reply \<times> conv_state \<times> user_data" where
  "submit_got_code upd ud w =
     (let code = strip (text_or_empty upd)
      in case validate_code (effective_user_id upd) code (code_col w) of
           (ok, msg) \<Rightarrow>
             if \<not> ok then (InvalidCode msg, S_CODE, ud)
             else (AskCaption, S_CAPTION, ud\<lparr>ud_ugc_code := Some code\<rparr>))"

definition submit_got_caption :: "update \<Rightarrow> user_data \<Rightarrow> reply \<times> conv_state \<times> user_data" where
  "submit_got_caption upd ud =
     (let caption = strip (text_or_empty upd)
      in if length caption < 5 then (CaptionTooShort, S_CAPTION, ud)
         else (AskProof, S_PROOF, ud\<lparr>ud_caption := Some caption\<rparr>))"

definition submit_got_proof :: "digest \<Rightarrow> update \<Rightarrow> user_data \<Rightarrow> reply \<times> conv_state \<times> user_data" where
  "submit_got_proof H upd ud =
     (case message_photo upd of
        None \<Rightarrow> (NotAPhoto, S_PROOF, ud)
      | Some b \<Rightarrow> (AskTier, S_TIER, ud\<lparr>ud_proof_sha256 := Some (sha256_bytes H b)\<rparr>))"

subsection \<open>Reward ledger\<close>

definition create_reward_ledger ::
  "config \<Rightarrow> timestamp \<Rightarrow> timestamp \<Rightarrow> int \<Rightarrow> string \<Rightarrow> string \<Rightarrow> ledger_entry list \<Rightarrow> ledger_entry list"
where
  \<comment> \<open>\<open>_create_reward_ledger\<close>; \<open>t_created\<close> and \<open>t_claimable\<close> are its two readings
      of the clock, in the order it takes them.\<close>
  "create_reward_ledger cfg t_created t_claimable user_id ugc_id tier ledger =
     (let drop_id = (if tier = ''T1'' then T1_DROP_ID cfg else T2_DROP_ID cfg);
          amount = (if tier = ''T1'' then 1 else 5);
          doc = \<lparr>l_user_id = user_id, l_ugc_id = ugc_id, l_tier = tier, l_amount = amount,
                 l_drop_id = drop_id, l_status = ''pending_claim'',
                 l_created_at = t_created, l_claimable_after = t_claimable,
                 l_claimed_at = None, l_voucher_code = None\<rparr>
      in upsert_set_on_insert (\<lambda>e. l_ugc_id e = ugc_id \<and> l_tier e = tier) doc ledger)"

subsection \<open>Commit\<close>

text \<open>
  \<open>submit_got_tier\<close> reads the clock up to six times; \<open>now k\<close> is its reading number
  \<open>k\<close>, in the order the source takes them. \<open>new_id\<close> is the \<open>_id\<close> the driver
  generates for the inserted document. A missing key of \<open>user_data\<close> raises \<open>KeyError\<close>,
  and subscripting the \<open>None\<close> of a failed \<open>find_one\<close> raises \<open>TypeError\<close>.
\<close>

definition submit_got_tier ::
  "config \<Rightarrow> (nat \<Rightarrow> timestamp) \<Rightarrow> object_id \<Rightarrow> update \<Rightarrow> user_data \<Rightarrow> world
     \<Rightarrow> py_error + (reply \<times> conv_state \<times> world)"
where
  "submit_got_tier cfg now new_id upd ud w =
     (let tier = upper (strip (text_or_empty upd))
      in if tier \<notin> {''T1'', ''T2''} then Inr (InvalidTier, S_TIER, w)
      else
        let user_id = effective_user_id upd
        in case ud_platform ud of None \<Rightarrow> Inl KeyError | Some platform \<Rightarrow>
           case ud_post_url ud of None \<Rightarrow> Inl KeyError | Some post_url \<Rightarrow>
           case ud_post_hash ud of None \<Rightarrow> Inl KeyError | Some post_hash \<Rightarrow>
           case ud_ugc_code ud of None \<Rightarrow> Inl KeyError | Some ugc_code \<Rightarrow>
           case ud_caption ud of None \<Rightarrow> Inl KeyError | Some caption \<Rightarrow>
           case ud_proof_sha256 ud of None \<Rightarrow> Inl KeyError | Some proof_sha256 \<Rightarrow>
        let submission =
              \<lparr>s_id = new_id,
               s_user_id = user_id,
               s_usernameLower =
                 lower (case effective_username upd of None \<Rightarrow> [] | Some n \<Rightarrow> n),
               s_platform = platform,
               s_post_url = post_url,
               s_post_hash = post_hash,
               s_ugc_code = ugc_code,
               s_caption = caption,
               s_proof_sha256 = proof_sha256,
               s_tier_claimed = tier,
               s_status = ''submitted'',
               s_created_at = now 0,
               s_updated_at = now 1,
               s_metrics_proof_sha256 = None,
               s_validated_at = None\<rparr>
        in case insert_one submission (ugc_col w) of
             None \<Rightarrow>
               (case find_one (\<lambda>d. s_platform d = platform \<and> s_post_hash d = post_hash)
                       (ugc_col w) of
                  None \<Rightarrow> Inl TypeError
                | Some existing \<Rightarrow> Inr (AlreadySubmitted (s_id existing), END, w))
           | Some ugc1 \<Rightarrow>
               let ugc_id = new_id;
                   codes1 = update_one (\<lambda>c. c_code c = ugc_code)
                              (\<lambda>c. c\<lparr>c_status := Some ''used'', c_used_at := Some (now 2),
                                      c_ugc_id := Some ugc_id\<rparr>)
                              (code_col w)
               in if tier = ''T1''
                  then
                    let ugc2 = update_one (\<lambda>d. s_id d = new_id)
                                 (\<lambda>d. d\<lparr>s_status := ''validated'',
                                         s_validated_at := Some (now 3)\<rparr>)
                                 ugc1;
                        ledger1 = create_reward_ledger cfg (now 4) (now 5) user_id ugc_id ''T1''
                                    (ledger_col w)
                    in Inr (SubmittedValidatedT1 ugc_id, END,
                            \<lparr>ugc_col = ugc2, code_col = codes1, ledger_col = ledger1\<rparr>)
                  else
                    Inr (SubmittedT2Pending ugc_id, END,
                         \<lparr>ugc_col = ugc1, code_col = codes1, ledger_col = ledger_col w\<rparr>))"

subsection \<open>The metrics conversation and the status command\<close>

definition metrics_cmd :: "update \<Rightarrow> user_data \<Rightarrow> reply \<times> conv_state \<times> user_data" where
  "metrics_cmd upd ud =
     (if \<not> must_dm upd then (DmOnly, END, ud)
      else case args upd of
             [] \<Rightarrow> (MetricsUsage, END, ud)
           | a # _ \<Rightarrow>
               (AskMetricsProof, S_METRICS_PROOF, ud\<lparr>ud_metrics_ugc_id := Some (strip a)\<rparr>))"

text \<open>
  \<open>metrics_got_proof\<close> reads the clock four times: \<open>now 0\<close> and \<open>now 1\<close> for the
  update of the submission, \<open>now 2\<close> and \<open>now 3\<close> inside \<open>_create_reward_ledger\<close>.
\<close>

definition metrics_got_proof ::
  "config \<Rightarrow> digest \<Rightarrow> (nat \<Rightarrow> timestamp) \<Rightarrow> update \<Rightarrow> user_data \<Rightarrow> world
     \<Rightarrow> py_error + (reply \<times> conv_state \<times> world)"
where
  "metrics_got_proof cfg H now upd ud w =
     (case ud_metrics_ugc_id ud of
        None \<Rightarrow> Inr (MissingUgcId, END, w)
      | Some ugc_id \<Rightarrow>
          if ugc_id = [] then Inr (MissingUgcId, END, w)
          else case message_photo upd of
            None \<Rightarrow> Inr (MetricsNotAPhoto, S_METRICS_PROOF, w)
          | Some b \<Rightarrow>
              let user_id = effective_user_id upd
              in case oid ugc_id of
                   Inl e \<Rightarrow> Inl e
                 | Inr i \<Rightarrow>
                     (case find_one (\<lambda>d. s_id d = i \<and> s_user_id d = user_id) (ugc_col w) of
                        None \<Rightarrow> Inr (UgcNotFound, END, w)
                      | Some sub \<Rightarrow>
                          let metrics_hash = sha256_bytes H b;
                              ugc1 = update_one (\<lambda>d. s_id d = i)
                                       (\<lambda>d. d\<lparr>s_metrics_proof_sha256 := Some metrics_hash,
                                               s_status := ''validated'',
                                               s_validated_at := Some (now 0),
                                               s_updated_at := now 1\<rparr>)
                                       (ugc_col w);
                              ledger1 = create_reward_ledger cfg (now 2) (now 3) user_id ugc_id
                                          ''T2'' (ledger_col w)
                          in Inr (T2Validated ugc_id, END,
                                  w\<lparr>ugc_col := ugc1, ledger_col := ledger1\<rparr>)))"

definition status_cmd :: "update \<Rightarrow> world \<Rightarrow> py_error + reply" where
  "status_cmd upd w =
     (if \<not> must_dm upd then Inr DmOnly
      else case args upd of
             [] \<Rightarrow> Inr StatusUsage
           | a # _ \<Rightarrow>
               let ugc_id = strip a
               in case oid ugc_id of
                    Inl e \<Rightarrow> Inl e
                  | Inr i \<Rightarrow>
                      (case find_one (\<lambda>d. s_id d = i \<and> s_user_id d = effective_user_id upd)
                              (ugc_col w) of
                         None \<Rightarrow> Inr NotFound
                       | Some sub \<Rightarrow>
                           Inr (StatusReport ugc_id (s_platform sub) (s_tier_claimed sub)
                                  (s_status sub) (s_validated_at sub))))"

section \<open>Sequences of calls\<close>

text \<open>
  A call of \<open>_create_reward_ledger\<close> is given by its two clock readings and its three
  arguments. \<open>grant_all\<close> runs a sequence of calls against the ledger, one after the
  other: the store applies each upsert atomically, so calls of several sessions reach the
  ledger in some such order.
\<close>

type_synonym grant_call = "timestamp \<times> timestamp \<times> int \<times> string \<times> string"

fun grant_all :: "config \<Rightarrow> grant_call list \<Rightarrow> ledger_entry list \<Rightarrow> ledger_entry list" where
  "grant_all cfg [] ledger = ledger"
| "grant_all cfg ((t_created, t_claimable, user_id, ugc_id, tier) # calls) ledger =
     grant_all cfg calls
       (create_reward_ledger cfg t_created t_claimable user_id ugc_id tier ledger)"

section \<open>Sample data\<close>

text \<open>Concrete documents, messages and settings, used to instantiate the theorems below.\<close>

definition ex_cfg :: config where
  "ex_cfg = \<lparr>T1_DROP_ID = ''drop-1'', T2_DROP_ID = ''drop-5'', MAX_SUBMISSIONS_PER_DAY = 2\<rparr>"

definition ex_sub :: "object_id \<Rightarrow> int \<Rightarrow> timestamp \<Rightarrow> submission" where
  "ex_sub i u t =
     \<lparr>s_id = i, s_user_id = u, s_usernameLower = ''alice'', s_platform = ''tt'',
      s_post_url = ''https://tiktok.com/@x/video/1'',
      s_post_hash = ''tt:https://tiktok.com/@x/video/1'',
      s_ugc_code = ''C1'', s_caption = ''check this out!!'', s_proof_sha256 = ''p1'',
      s_tier_claimed = ''T2'', s_status = ''submitted'', s_created_at = t, s_updated_at = t,
      s_metrics_proof_sha256 = None, s_validated_at = None\<rparr>"

definition ex_upd :: "int \<Rightarrow> string \<Rightarrow> update" where
  "ex_upd u txt =
     \<lparr>effective_chat = Some PRIVATE, effective_user_id = u,
      effective_username = Some ''alice'', message_text = Some txt, message_photo = None,
      args = []\<rparr>"

definition ex_ud :: user_data where
  \<comment> \<open>the draft of a session at the tier step; the digest is the identity here\<close>
  "ex_ud =
     \<lparr>ud_platform = Some ''tt'', ud_post_url = Some ''https://tiktok.com/@x/video/1'',
      ud_post_hash = Some ''tt:https://tiktok.com/@x/video/1'', ud_ugc_code = Some ''C1'',
      ud_caption = Some ''check this out!!'', ud_proof_sha256 = Some ''p1'',
      ud_metrics_ugc_id = None\<rparr>"

definition ex_code :: "string \<Rightarrow> int \<Rightarrow> code_doc" where
  "ex_code c u =
     \<lparr>c_code = c, c_user_id = Some u, c_status = Some ''unused'', c_used_at = None,
      c_ugc_id = None\<rparr>"

definition ex_id1 :: object_id where
  "ex_id1 = ''65a1b2c3d4e5f6a7b8c9d0e1''"

definition ex_id2 :: object_id where
  "ex_id2 = ''65a1b2c3d4e5f6a7b8c9d0e2''"

definition ex_now :: "nat \<Rightarrow> timestamp" where
  "ex_now k = 2000 + int k"

section \<open>Facts about the store operations\<close>

lemma find_none_iff: "find P xs = None \<longleftrightarrow> (\<forall>x\<in>set xs. \<not> P x)"
  by (induction xs) auto

lemma find_first:
  "\<forall>x\<in>set pre. \<not> P x \<Longrightarrow> P d \<Longrightarrow> find P (pre @ d # post) = Some d"
  by (induction pre) auto

section \<open>Code redeemer\<close>

text \<open>
  Claim C5. \<open>validate_code\<close> looks the trimmed code up and returns the first failure of
  three checks, in this order: no document with that code gives \<open>CodeNotFound\<close>;
  otherwise, for the (first) document with that code, a bound user other than the caller
  gives \<open>CodeNotOwned\<close>, whatever the document's status is; otherwise the status
  \<open>used\<close> or \<open>expired\<close> gives \<open>CodeAlreadyUsed\<close>; otherwise validation succeeds.
  (The caller's id is not \<open>-1\<close>, the value the source reads for a document that has
  no bound user.)
\<close>

theorem validate_code_checks_in_order:
  assumes "user_id \<noteq> - 1"
  shows
   "((\<forall>d\<in>set codes. c_code d \<noteq> strip code) \<longrightarrow>
        validate_code user_id code codes = (False, CodeNotFound)) \<and>
    (\<forall>pre doc post.
        codes = pre @ doc # post \<and> (\<forall>d\<in>set pre. c_code d \<noteq> strip code) \<and>
        c_code doc = strip code \<longrightarrow>
        validate_code user_id code codes =
          (if c_user_id doc \<noteq> Some user_id then (False, CodeNotOwned)
           else if c_status doc = Some ''used'' \<or> c_status doc = Some ''expired''
           then (False, CodeAlreadyUsed)
           else (True, OK)))"
proof (intro conjI impI allI)
  assume "\<forall>d\<in>set codes. c_code d \<noteq> strip code"
  then have "find (\<lambda>d. c_code d = strip code) codes = None"
    by (simp add: find_none_iff)
  then show "validate_code user_id code codes = (False, CodeNotFound)"
    by (simp add: validate_code_def find_one_def)
next
  fix pre doc post
  assume h: "codes = pre @ doc # post \<and> (\<forall>d\<in>set pre. c_code d \<noteq> strip code) \<and>
        c_code doc = strip code"
  then have "find (\<lambda>d. c_code d = strip code) codes = Some doc"
    using find_first [of pre "\<lambda>d. c_code d = strip code" doc post] by simp
  then show "validate_code user_id code codes =
          (if c_user_id doc \<noteq> Some user_id then (False, CodeNotOwned)
           else if c_status doc = Some ''used'' \<or> c_status doc = Some ''expired''
           then (False, CodeAlreadyUsed)
           else (True, OK))"
    using assms by (auto simp: validate_code_def find_one_def split: option.splits)
qed

theorem validate_code_checks_in_order_witness:
  "(7::int) \<noteq> - 1 \<and>
   validate_code 7 '' abc ''
     [\<lparr>c_code = ''xyz'', c_user_id = Some 7, c_status = Some ''unused'',
        c_used_at = None, c_ugc_id = None\<rparr>] = (False, CodeNotFound) \<and>
   validate_code 7 '' abc ''
     [\<lparr>c_code = ''xyz'', c_user_id = Some 7, c_status = Some ''unused'',
        c_used_at = None, c_ugc_id = None\<rparr>,
      \<lparr>c_code = ''abc'', c_user_id = Some 8, c_status = Some ''used'',
        c_used_at = Some 5, c_ugc_id = None\<rparr>] = (False, CodeNotOwned)"
proof -
  let ?x = "\<lparr>c_code = ''xyz'', c_user_id = Some (7::int), c_status = Some ''unused'',
        c_used_at = None, c_ugc_id = None\<rparr>"
  let ?a = "\<lparr>c_code = ''abc'', c_user_id = Some (8::int), c_status = Some ''used'',
        c_used_at = Some 5, c_ugc_id = None\<rparr>"
  have u: "(7::int) \<noteq> - 1" by simp
  have s: "strip '' abc '' = ''abc''" by (simp add: strip_def isspace_def)
  have "validate_code 7 '' abc '' [?x] = (False, CodeNotFound)"
    using validate_code_checks_in_order [OF u, of "[?x]" "'' abc ''"] by (simp add: s)
  moreover have "validate_code 7 '' abc '' [?x, ?a] = (False, CodeNotOwned)"
    using validate_code_checks_in_order [OF u, of "[?x, ?a]" "'' abc ''"] s
    by (elim conjE allE [of _ "[?x]"] allE [of _ ?a] allE [of _ "[]"]) simp
  ultimately show ?thesis using u by simp
qed

section \<open>Rate limiter\<close>

lemma window_stay:
  assumes "\<forall>e\<in>set xs. s_user_id e = u \<and> lo \<le> s_created_at e \<longrightarrow> lo' \<le> s_created_at e"
      and "lo \<le> lo'"
  shows "[d\<leftarrow>xs. s_user_id d = u \<and> lo' \<le> s_created_at d]
        = [d\<leftarrow>xs. s_user_id d = u \<and> lo \<le> s_created_at d]"
  using assms by (induction xs) auto

text \<open>
  Claim C6. In a private chat, \<open>submit_cmd\<close> ends the session with the rate-limit reply
  exactly when the number of the user's submissions created within the trailing 24 hours
  (\<open>created_at \<ge> now - 24h\<close>) is at least \<open>MAX_SUBMISSIONS_PER_DAY\<close>, and asks for the
  URL when that number is below the limit. When, from \<open>now\<close> to a later \<open>now'\<close>, one
  in-window submission of the user (the oldest) has left the window and the user's other
  in-window submissions are still in it, the count has dropped by exactly one.
\<close>

theorem submit_rate_limit:
  assumes "must_dm upd"
  shows
   "(submit_cmd cfg now upd w = (DailyLimit, END) \<longleftrightarrow>
       MAX_SUBMISSIONS_PER_DAY cfg \<le>
         int (length [d\<leftarrow>ugc_col w. s_user_id d = effective_user_id upd \<and>
                                   now - 86400000 \<le> s_created_at d])) \<and>
    (int (length [d\<leftarrow>ugc_col w. s_user_id d = effective_user_id upd \<and>
                                   now - 86400000 \<le> s_created_at d])
       < MAX_SUBMISSIONS_PER_DAY cfg \<longrightarrow>
     submit_cmd cfg now upd w = (AskUrl, S_PLATFORM_URL)) \<and>
    (\<forall>pre oldest post now'.
       ugc_col w = pre @ oldest # post \<and> now \<le> now' \<and>
       s_user_id oldest = effective_user_id upd \<and>
       now - 86400000 \<le> s_created_at oldest \<and> s_created_at oldest < now' - 86400000 \<and>
       (\<forall>e\<in>set (pre @ post). s_user_id e = effective_user_id upd \<and>
            now - 86400000 \<le> s_created_at e \<longrightarrow> now' - 86400000 \<le> s_created_at e) \<longrightarrow>
       daily_submission_count now' (effective_user_id upd) (ugc_col w) =
         daily_submission_count now (effective_user_id upd) (ugc_col w) - 1)"
proof (intro conjI allI impI)
  show "submit_cmd cfg now upd w = (DailyLimit, END) \<longleftrightarrow>
       MAX_SUBMISSIONS_PER_DAY cfg \<le>
         int (length [d\<leftarrow>ugc_col w. s_user_id d = effective_user_id upd \<and>
                                   now - 86400000 \<le> s_created_at d])"
    using assms
    by (simp add: submit_cmd_def daily_submission_count_def count_documents_def one_day_def
          Let_def)
next
  assume "int (length [d\<leftarrow>ugc_col w. s_user_id d = effective_user_id upd \<and>
                                   now - 86400000 \<le> s_created_at d])
       < MAX_SUBMISSIONS_PER_DAY cfg"
  then show "submit_cmd cfg now upd w = (AskUrl, S_PLATFORM_URL)"
    using assms
    by (simp add: submit_cmd_def daily_submission_count_def count_documents_def one_day_def
          Let_def)
next
  fix pre oldest post now'
  let ?u = "effective_user_id upd"
  assume h: "ugc_col w = pre @ oldest # post \<and> now \<le> now' \<and>
       s_user_id oldest = ?u \<and>
       now - 86400000 \<le> s_created_at oldest \<and> s_created_at oldest < now' - 86400000 \<and>
       (\<forall>e\<in>set (pre @ post). s_user_id e = ?u \<and>
            now - 86400000 \<le> s_created_at e \<longrightarrow> now' - 86400000 \<le> s_created_at e)"
  have pre: "[d\<leftarrow>pre. s_user_id d = ?u \<and> now' - 86400000 \<le> s_created_at d]
        = [d\<leftarrow>pre. s_user_id d = ?u \<and> now - 86400000 \<le> s_created_at d]"
    using h by (intro window_stay) auto
  have post: "[d\<leftarrow>post. s_user_id d = ?u \<and> now' - 86400000 \<le> s_created_at d]
        = [d\<leftarrow>post. s_user_id d = ?u \<and> now - 86400000 \<le> s_created_at d]"
    using h by (intro window_stay) auto
  show "daily_submission_count now' ?u (ugc_col w) =
         daily_submission_count now ?u (ugc_col w) - 1"
    using h pre post
    by (simp add: daily_submission_count_def count_documents_def one_day_def Let_def)
qed

theorem submit_rate_limit_witness:
  "must_dm (ex_upd 7 ''/submit'') \<and>
   submit_cmd ex_cfg 86400000
     (ex_upd 7 ''/submit'')
     \<lparr>ugc_col = [ex_sub ''a'' 7 1000, ex_sub ''b'' 7 5000, ex_sub ''c'' 8 6000],
      code_col = [], ledger_col = []\<rparr> = (DailyLimit, END) \<and>
   submit_cmd ex_cfg 86401001
     (ex_upd 7 ''/submit'')
     \<lparr>ugc_col = [ex_sub ''a'' 7 1000, ex_sub ''b'' 7 5000, ex_sub ''c'' 8 6000],
      code_col = [], ledger_col = []\<rparr> = (AskUrl, S_PLATFORM_URL) \<and>
   daily_submission_count 86401001 7
     [ex_sub ''a'' 7 1000, ex_sub ''b'' 7 5000, ex_sub ''c'' 8 6000] =
   daily_submission_count 86400000 7
     [ex_sub ''a'' 7 1000, ex_sub ''b'' 7 5000, ex_sub ''c'' 8 6000] - 1"
proof -
  let ?upd = "ex_upd 7 ''/submit''"
  let ?w = "\<lparr>ugc_col = [ex_sub ''a'' 7 1000, ex_sub ''b'' 7 5000, ex_sub ''c'' 8 6000],
      code_col = [], ledger_col = []\<rparr>"
  have dm: "must_dm ?upd" by (simp add: must_dm_def ex_upd_def)
  have a: "submit_cmd ex_cfg 86400000 ?upd ?w = (DailyLimit, END)"
    using submit_rate_limit [OF dm, of ex_cfg 86400000 ?w]
    by (simp add: ex_upd_def ex_sub_def ex_cfg_def)
  have b: "submit_cmd ex_cfg 86401001 ?upd ?w = (AskUrl, S_PLATFORM_URL)"
    using submit_rate_limit [OF dm, of ex_cfg 86401001 ?w]
    by (simp add: ex_upd_def ex_sub_def ex_cfg_def)
  have c: "daily_submission_count 86401001 (effective_user_id ?upd) (ugc_col ?w) =
           daily_submission_count 86400000 (effective_user_id ?upd) (ugc_col ?w) - 1"
    using submit_rate_limit [OF dm, of ex_cfg 86400000 ?w]
    by (elim conjE allE [of _ "[]"] allE [of _ "ex_sub ''a'' 7 1000"]
          allE [of _ "[ex_sub ''b'' 7 5000, ex_sub ''c'' 8 6000]"] allE [of _ 86401001])
       (simp add: ex_upd_def ex_sub_def)
  from dm a b c show ?thesis by (simp add: ex_upd_def)
qed

section \<open>Reward ledger: idempotent grant\<close>

lemma create_new:
  assumes "\<not> (\<exists>e\<in>set L. l_ugc_id e = g \<and> l_tier e = tier)"
  shows "create_reward_ledger cfg t1 t2 u g tier L =
         L @ [\<lparr>l_user_id = u, l_ugc_id = g, l_tier = tier,
               l_amount = (if tier = ''T1'' then 1 else 5),
               l_drop_id = (if tier = ''T1'' then T1_DROP_ID cfg else T2_DROP_ID cfg),
               l_status = ''pending_claim'', l_created_at = t1, l_claimable_after = t2,
               l_claimed_at = None, l_voucher_code = None\<rparr>]"
  using assms
  by (simp add: create_reward_ledger_def upsert_set_on_insert_def list_ex_iff Let_def)

lemma create_old:
  assumes "\<exists>e\<in>set L. l_ugc_id e = g \<and> l_tier e = tier"
  shows "create_reward_ledger cfg t1 t2 u g tier L = L"
  using assms
  by (simp add: create_reward_ledger_def upsert_set_on_insert_def list_ex_iff Let_def)

lemma create_other_key:
  assumes "(g', tier') \<noteq> (g, tier)"
  shows "[e\<leftarrow>create_reward_ledger cfg t1 t2 u g' tier' L. l_ugc_id e = g \<and> l_tier e = tier]
       = [e\<leftarrow>L. l_ugc_id e = g \<and> l_tier e = tier]"
  using assms
  by (auto simp add: create_reward_ledger_def upsert_set_on_insert_def list_ex_iff Let_def)

lemma grant_all_keeps:
  assumes "\<exists>e\<in>set L. l_ugc_id e = g \<and> l_tier e = tier"
  shows "[e\<leftarrow>grant_all cfg calls L. l_ugc_id e = g \<and> l_tier e = tier]
       = [e\<leftarrow>L. l_ugc_id e = g \<and> l_tier e = tier]"
  using assms
proof (induction cfg calls L rule: grant_all.induct)
  case (1 cfg ledger)
  then show ?case by simp
next
  case (2 cfg t1 t2 u g' tier' calls ledger)
  let ?L = "create_reward_ledger cfg t1 t2 u g' tier' ledger"
  show ?case
  proof (cases "(g', tier') = (g, tier)")
    case True
    then have "?L = ledger" using 2(2) create_old by simp
    then show ?thesis using 2 by simp
  next
    case False
    then have f: "[e\<leftarrow>?L. l_ugc_id e = g \<and> l_tier e = tier]
       = [e\<leftarrow>ledger. l_ugc_id e = g \<and> l_tier e = tier]"
      by (rule create_other_key)
    have "[e\<leftarrow>ledger. l_ugc_id e = g \<and> l_tier e = tier] \<noteq> []"
      using 2(2) by (simp add: filter_empty_conv)
    then have "\<exists>e\<in>set ?L. l_ugc_id e = g \<and> l_tier e = tier"
      using f by (metis (mono_tags, lifting) filter_empty_conv)
    then show ?thesis using 2(1) f by simp
  qed
qed

lemma grant_all_first:
  assumes "\<not> (\<exists>e\<in>set L. l_ugc_id e = g \<and> l_tier e = tier)"
      and "find (\<lambda>(a, b, u, g', tier'). g' = g \<and> tier' = tier) calls = Some (t1, t2, u, g0, tier0)"
  shows "[e\<leftarrow>grant_all cfg calls L. l_ugc_id e = g \<and> l_tier e = tier]
       = [\<lparr>l_user_id = u, l_ugc_id = g, l_tier = tier,
               l_amount = (if tier = ''T1'' then 1 else 5),
               l_drop_id = (if tier = ''T1'' then T1_DROP_ID cfg else T2_DROP_ID cfg),
               l_status = ''pending_claim'', l_created_at = t1, l_claimable_after = t2,
               l_claimed_at = None, l_voucher_code = None\<rparr>]"
  using assms
proof (induction cfg calls L rule: grant_all.induct)
  case (1 cfg ledger)
  then show ?case by simp
next
  case (2 cfg a b u' g' tier' calls ledger)
  let ?L = "create_reward_ledger cfg a b u' g' tier' ledger"
  show ?case
  proof (cases "(g', tier') = (g, tier)")
    case True
    then have eq: "a = t1" "b = t2" "u' = u" using 2(3) by auto
    have none: "[e\<leftarrow>ledger. l_ugc_id e = g \<and> l_tier e = tier] = []"
      using 2(2) by (auto simp: filter_empty_conv)
    have L: "?L = ledger @ [\<lparr>l_user_id = u, l_ugc_id = g, l_tier = tier,
               l_amount = (if tier = ''T1'' then 1 else 5),
               l_drop_id = (if tier = ''T1'' then T1_DROP_ID cfg else T2_DROP_ID cfg),
               l_status = ''pending_claim'', l_created_at = t1, l_claimable_after = t2,
               l_claimed_at = None, l_voucher_code = None\<rparr>]"
      using True eq 2(2) create_new [of ledger g tier cfg t1 t2 u] by simp
    then have ex: "\<exists>e\<in>set ?L. l_ugc_id e = g \<and> l_tier e = tier" by simp
    have "[e\<leftarrow>grant_all cfg calls ?L. l_ugc_id e = g \<and> l_tier e = tier]
        = [e\<leftarrow>?L. l_ugc_id e = g \<and> l_tier e = tier]"
      using ex by (rule grant_all_keeps)
    then show ?thesis using L none by simp
  next
    case False
    then have f: "[e\<leftarrow>?L. l_ugc_id e = g \<and> l_tier e = tier]
       = [e\<leftarrow>ledger. l_ugc_id e = g \<and> l_tier e = tier]"
      by (rule create_other_key)
    have "[e\<leftarrow>ledger. l_ugc_id e = g \<and> l_tier e = tier] = []"
      using 2(2) by (auto simp: filter_empty_conv)
    then have "\<not> (\<exists>e\<in>set ?L. l_ugc_id e = g \<and> l_tier e = tier)"
      using f by (metis (mono_tags, lifting) filter_empty_conv)
    moreover have "find (\<lambda>(a, b, u, g', tier'). g' = g \<and> tier' = tier) calls = Some (t1, t2, u, g0, tier0)"
      using False 2(3) by auto
    ultimately show ?thesis using 2(1) by simp
  qed
qed

text \<open>
  Claim C1. For a key \<open>(ugc_id, tier)\<close>: a call of \<open>_create_reward_ledger\<close> on a ledger
  with no entry for the key appends one entry, with status \<open>pending_claim\<close>, amount 1 for
  \<open>T1\<close> and 5 for \<open>T2\<close>, the tier's drop id, the call's two clock readings as creation and
  earliest-claimable time, and no claim time or voucher; a call on a ledger that has an
  entry for the key changes nothing. Hence after any sequence of calls (for any keys, in
  any order) the ledger holds exactly one entry for the key, the one the first call for
  that key inserted; and a ledger that had entries for the key keeps exactly those.
\<close>

theorem create_reward_ledger_idempotent:
  "(\<not> (\<exists>e\<in>set L. l_ugc_id e = g \<and> l_tier e = tier) \<longrightarrow>
      create_reward_ledger cfg t1 t2 u g tier L = L @ [\<lparr>l_user_id = u, l_ugc_id = g, l_tier = tier,
            l_amount = (if tier = ''T1'' then 1 else 5),
            l_drop_id = (if tier = ''T1'' then T1_DROP_ID cfg else T2_DROP_ID cfg),
            l_status = ''pending_claim'', l_created_at = t1, l_claimable_after = t2,
            l_claimed_at = None, l_voucher_code = None\<rparr>]) \<and>
   ((\<exists>e\<in>set L. l_ugc_id e = g \<and> l_tier e = tier) \<longrightarrow>
      create_reward_ledger cfg t1 t2 u g tier L = L) \<and>
   (\<forall>calls.
      \<not> (\<exists>e\<in>set L. l_ugc_id e = g \<and> l_tier e = tier) \<and>
      find (\<lambda>(a, b, u', g', tier'). g' = g \<and> tier' = tier) calls = Some (t1, t2, u, g, tier) \<longrightarrow>
      [e\<leftarrow>grant_all cfg calls L. l_ugc_id e = g \<and> l_tier e = tier] = [\<lparr>l_user_id = u, l_ugc_id = g, l_tier = tier,
            l_amount = (if tier = ''T1'' then 1 else 5),
            l_drop_id = (if tier = ''T1'' then T1_DROP_ID cfg else T2_DROP_ID cfg),
            l_status = ''pending_claim'', l_created_at = t1, l_claimable_after = t2,
            l_claimed_at = None, l_voucher_code = None\<rparr>]) \<and>
   (\<forall>calls.
      (\<exists>e\<in>set L. l_ugc_id e = g \<and> l_tier e = tier) \<longrightarrow>
      [e\<leftarrow>grant_all cfg calls L. l_ugc_id e = g \<and> l_tier e = tier] =
      [e\<leftarrow>L. l_ugc_id e = g \<and> l_tier e = tier])"
  using create_new [of L g tier cfg t1 t2 u] create_old [of L g tier cfg t1 t2 u]
    grant_all_first [of L g tier _ t1 t2 u g tier cfg] grant_all_keeps [of L g tier cfg]
  by blast

theorem create_reward_ledger_idempotent_witness:
  "create_reward_ledger ex_cfg 10 11 7 ''a'' ''T1'' [] =
     [\<lparr>l_user_id = 7, l_ugc_id = ''a'', l_tier = ''T1'', l_amount = 1, l_drop_id = ''drop-1'',
       l_status = ''pending_claim'', l_created_at = 10, l_claimable_after = 11,
       l_claimed_at = None, l_voucher_code = None\<rparr>] \<and>
   [e\<leftarrow>grant_all ex_cfg
         [(20, 21, 7, ''a'', ''T2''), (10, 11, 7, ''a'', ''T1''), (30, 31, 8, ''a'', ''T1'')] [].
      l_ugc_id e = ''a'' \<and> l_tier e = ''T1''] =
     [\<lparr>l_user_id = 7, l_ugc_id = ''a'', l_tier = ''T1'', l_amount = 1, l_drop_id = ''drop-1'',
       l_status = ''pending_claim'', l_created_at = 10, l_claimable_after = 11,
       l_claimed_at = None, l_voucher_code = None\<rparr>]"
proof -
  note t = create_reward_ledger_idempotent [of "[]" "''a''" "''T1''" ex_cfg 10 11 7]
  have a: "create_reward_ledger ex_cfg 10 11 7 ''a'' ''T1'' [] =
     [\<lparr>l_user_id = 7, l_ugc_id = ''a'', l_tier = ''T1'', l_amount = 1, l_drop_id = ''drop-1'',
       l_status = ''pending_claim'', l_created_at = 10, l_claimable_after = 11,
       l_claimed_at = None, l_voucher_code = None\<rparr>]"
    using t by (simp add: ex_cfg_def)
  have b: "[e\<leftarrow>grant_all ex_cfg
         [(20, 21, 7, ''a'', ''T2''), (10, 11, 7, ''a'', ''T1''), (30, 31, 8, ''a'', ''T1'')] [].
      l_ugc_id e = ''a'' \<and> l_tier e = ''T1''] =
     [\<lparr>l_user_id = 7, l_ugc_id = ''a'', l_tier = ''T1'', l_amount = 1, l_drop_id = ''drop-1'',
       l_status = ''pending_claim'', l_created_at = 10, l_claimable_after = 11,
       l_claimed_at = None, l_voucher_code = None\<rparr>]"
    using t
    by (elim conjE
          allE [of _ "[(20, 21, 7, ''a'', ''T2''), (10, 11, 7, ''a'', ''T1''), (30, 31, 8, ''a'', ''T1'')]"])
       (simp add: ex_cfg_def)
  from a b show ?thesis by simp
qed

section \<open>Commit\<close>

lemma update_one_none: "\<forall>d\<in>set xs. \<not> P d \<Longrightarrow> update_one P f xs = xs"
  by (induction xs) auto

lemma update_one_first:
  "\<forall>d\<in>set pre. \<not> P d \<Longrightarrow> P x \<Longrightarrow> update_one P f (pre @ x # post) = pre @ f x # post"
  by (induction pre) auto

lemma commit_duplicate:
  assumes "upper (strip (text_or_empty upd)) \<in> {''T1'', ''T2''}"
      and "ud_platform ud = Some p" "ud_post_url ud = Some url" "ud_post_hash ud = Some h"
          "ud_ugc_code ud = Some code" "ud_caption ud = Some cap"
          "ud_proof_sha256 ud = Some prf"
      and "ugc_col w = pre @ existing # post"
          "\<forall>d\<in>set pre. \<not> (s_platform d = p \<and> s_post_hash d = h)"
          "s_platform existing = p" "s_post_hash existing = h"
  shows "submit_got_tier cfg now new_id upd ud w =
           Inr (AlreadySubmitted (s_id existing), END, w)"
proof -
  have "find (\<lambda>d. s_platform d = p \<and> s_post_hash d = h) (ugc_col w) = Some existing"
    using assms(8-11) find_first [of pre "\<lambda>d. s_platform d = p \<and> s_post_hash d = h" existing post]
    by simp
  then show ?thesis
    using assms
    by (simp add: submit_got_tier_def Let_def insert_one_def list_ex_iff find_one_def)
qed

lemma commit_insert:
  assumes "upper (strip (text_or_empty upd)) = tier" "tier \<in> {''T1'', ''T2''}"
      and "ud_platform ud = Some p" "ud_post_url ud = Some url" "ud_post_hash ud = Some h"
          "ud_ugc_code ud = Some code" "ud_caption ud = Some cap"
          "ud_proof_sha256 ud = Some prf"
      and "\<forall>d\<in>set (ugc_col w). s_id d \<noteq> new_id \<and> \<not> (s_platform d = p \<and> s_post_hash d = h)"
  shows "submit_got_tier cfg now new_id upd ud w =
     (let sub = \<lparr>s_id = new_id, s_user_id = effective_user_id upd,
                 s_usernameLower =
                   lower (case effective_username upd of None \<Rightarrow> [] | Some n \<Rightarrow> n),
                 s_platform = p, s_post_url = url, s_post_hash = h, s_ugc_code = code,
                 s_caption = cap, s_proof_sha256 = prf, s_tier_claimed = tier,
                 s_status = ''submitted'', s_created_at = now 0, s_updated_at = now 1,
                 s_metrics_proof_sha256 = None, s_validated_at = None\<rparr>;
          codes1 = update_one (\<lambda>c. c_code c = code)
                     (\<lambda>c. c\<lparr>c_status := Some ''used'', c_used_at := Some (now 2),
                             c_ugc_id := Some new_id\<rparr>) (code_col w)
      in if tier = ''T1''
         then Inr (SubmittedValidatedT1 new_id, END,
                   \<lparr>ugc_col = ugc_col w @
                       [sub\<lparr>s_status := ''validated'', s_validated_at := Some (now 3)\<rparr>],
                    code_col = codes1,
                    ledger_col = create_reward_ledger cfg (now 4) (now 5)
                                   (effective_user_id upd) new_id ''T1'' (ledger_col w)\<rparr>)
         else Inr (SubmittedT2Pending new_id, END,
                   \<lparr>ugc_col = ugc_col w @ [sub], code_col = codes1,
                    ledger_col = ledger_col w\<rparr>))"
proof -
  have u: "\<And>f x. s_id x = new_id \<Longrightarrow>
      update_one (\<lambda>d. s_id d = new_id) f (ugc_col w @ [x]) = ugc_col w @ [f x]"
    using assms(9) update_one_first [of "ugc_col w" "\<lambda>d. s_id d = new_id" _ _ "[]"] by simp
  have ne: "\<not> list_ex (\<lambda>d. s_id d = new_id \<or> (s_platform d = p \<and> s_post_hash d = h))
               (ugc_col w)"
    using assms(9) by (auto simp: list_ex_iff)
  show ?thesis
    using assms(1-8)
    by (auto simp add: submit_got_tier_def Let_def insert_one_def ne u)
qed


text \<open>
  Claim C4. When the commit's insert conflicts with an existing document of the same
  \<open>(platform, post_hash)\<close>, \<open>submit_got_tier\<close> ends the session with the duplicate notice
  that carries the id of the existing document (the first with that key), and returns the
  world as it was: the code of the draft is not consumed, the ledger gets no entry, and
  the existing submission is not modified.
\<close>

theorem duplicate_commit_changes_nothing:
  assumes "upper (strip (text_or_empty upd)) \<in> {''T1'', ''T2''}"
      and "ud_platform ud = Some p" "ud_post_url ud = Some url" "ud_post_hash ud = Some h"
          "ud_ugc_code ud = Some code" "ud_caption ud = Some cap"
          "ud_proof_sha256 ud = Some prf"
      and "ugc_col w = pre @ existing # post"
          "\<forall>d\<in>set pre. \<not> (s_platform d = p \<and> s_post_hash d = h)"
          "s_platform existing = p" "s_post_hash existing = h"
  shows "submit_got_tier cfg now new_id upd ud w =
           Inr (AlreadySubmitted (s_id existing), END, w)"
  using assms by (rule commit_duplicate)

theorem duplicate_commit_changes_nothing_witness:
  "submit_got_tier ex_cfg ex_now ex_id2 (ex_upd 8 '' T1 '') ex_ud
     \<lparr>ugc_col = [ex_sub ex_id1 7 1000], code_col = [ex_code ''C1'' 8], ledger_col = []\<rparr> =
   Inr (AlreadySubmitted ex_id1, END,
     \<lparr>ugc_col = [ex_sub ex_id1 7 1000], code_col = [ex_code ''C1'' 8], ledger_col = []\<rparr>)"
proof -
  let ?w = "\<lparr>ugc_col = [ex_sub ex_id1 7 1000], code_col = [ex_code ''C1'' 8], ledger_col = []\<rparr>"
  have t: "upper (strip (text_or_empty (ex_upd 8 '' T1 ''))) \<in> {''T1'', ''T2''}"
    by (simp add: ex_upd_def text_or_empty_def strip_def isspace_def upper_def upper_char_def)
  have "submit_got_tier ex_cfg ex_now ex_id2 (ex_upd 8 '' T1 '') ex_ud ?w =
          Inr (AlreadySubmitted (s_id (ex_sub ex_id1 7 1000)), END, ?w)"
    by (rule duplicate_commit_changes_nothing [OF t, where pre = "[]" and post = "[]"])
       (simp_all add: ex_ud_def ex_sub_def)
  then show ?thesis by (simp add: ex_sub_def)
qed

text \<open>
  Claim C2. Two commits for the same platform and normalized URL, so with the same
  \<open>(platform, post_hash)\<close>, by the same or different users: when the first one inserts
  its document under the id \<open>id1\<close>, the store then holds exactly one document with that
  key, and the second commit (whatever its user, tier, code, caption, proof and fresh
  id are) neither raises nor changes the world: it ends the session with the duplicate
  notice carrying \<open>id1\<close>.
\<close>

theorem resubmission_returns_first_id:
  assumes "upper (strip (text_or_empty upd1)) \<in> {''T1'', ''T2''}"
      and "upper (strip (text_or_empty upd2)) \<in> {''T1'', ''T2''}"
      and "h = sha256_str H (p @ '':'' @ lower url)"
      and "ud_platform ud1 = Some p" "ud_post_url ud1 = Some url" "ud_post_hash ud1 = Some h"
          "ud_ugc_code ud1 = Some code1" "ud_caption ud1 = Some cap1"
          "ud_proof_sha256 ud1 = Some prf1"
      and "ud_platform ud2 = Some p" "ud_post_url ud2 = Some url" "ud_post_hash ud2 = Some h"
          "ud_ugc_code ud2 = Some code2" "ud_caption ud2 = Some cap2"
          "ud_proof_sha256 ud2 = Some prf2"
      and "\<forall>d\<in>set (ugc_col w). s_id d \<noteq> id1 \<and> \<not> (s_platform d = p \<and> s_post_hash d = h)"
  shows "\<exists>r1 w1.
           submit_got_tier cfg now1 id1 upd1 ud1 w = Inr (r1, END, w1) \<and>
           r1 \<in> {SubmittedValidatedT1 id1, SubmittedT2Pending id1} \<and>
           map s_id [d\<leftarrow>ugc_col w1. s_platform d = p \<and> s_post_hash d = h] = [id1] \<and>
           submit_got_tier cfg now2 id2 upd2 ud2 w1 = Inr (AlreadySubmitted id1, END, w1)"
proof -
  define tier where "tier = upper (strip (text_or_empty upd1))"
  define sub where "sub = \<lparr>s_id = id1, s_user_id = effective_user_id upd1,
                 s_usernameLower =
                   lower (case effective_username upd1 of None \<Rightarrow> [] | Some n \<Rightarrow> n),
                 s_platform = p, s_post_url = url, s_post_hash = h, s_ugc_code = code1,
                 s_caption = cap1, s_proof_sha256 = prf1, s_tier_claimed = tier,
                 s_status = ''submitted'', s_created_at = now1 0, s_updated_at = now1 1,
                 s_metrics_proof_sha256 = None, s_validated_at = None\<rparr>"
  define rec where "rec = (if tier = ''T1''
       then sub\<lparr>s_status := ''validated'', s_validated_at := Some (now1 3)\<rparr> else sub)"
  have tier: "upper (strip (text_or_empty upd1)) = tier" "tier \<in> {''T1'', ''T2''}"
    using assms(1) by (simp_all add: tier_def)
  have rec: "s_id rec = id1" "s_platform rec = p" "s_post_hash rec = h"
    by (simp_all add: rec_def sub_def)
  have none: "[d\<leftarrow>ugc_col w. s_platform d = p \<and> s_post_hash d = h] = []"
    using assms(16) by (auto simp: filter_empty_conv)
  obtain r1 w1 where c1: "submit_got_tier cfg now1 id1 upd1 ud1 w = Inr (r1, END, w1)"
      and r1: "r1 \<in> {SubmittedValidatedT1 id1, SubmittedT2Pending id1}"
      and w1: "ugc_col w1 = ugc_col w @ [rec]"
    using commit_insert [OF tier assms(4-9) assms(16), of cfg now1]
    by (cases "tier = ''T1''") (simp_all add: Let_def rec_def sub_def)
  have f: "map s_id [d\<leftarrow>ugc_col w1. s_platform d = p \<and> s_post_hash d = h] = [id1]"
    using w1 none rec by simp
  have pre: "\<forall>d\<in>set (ugc_col w). \<not> (s_platform d = p \<and> s_post_hash d = h)"
    using assms(16) by blast
  have c2: "submit_got_tier cfg now2 id2 upd2 ud2 w1 = Inr (AlreadySubmitted (s_id rec), END, w1)"
    using commit_duplicate [OF assms(2) assms(10-15), of w1 "ugc_col w" rec "[]" cfg now2 id2]
      w1 pre rec by simp
  show ?thesis using c1 r1 f c2 rec by (intro exI [of _ r1] exI [of _ w1]) simp
qed


theorem resubmission_returns_first_id_witness:
  "\<exists>r1 w1.
     submit_got_tier ex_cfg ex_now ex_id1 (ex_upd 7 ''T1'') ex_ud
       \<lparr>ugc_col = [], code_col = [ex_code ''C1'' 7], ledger_col = []\<rparr> = Inr (r1, END, w1) \<and>
     r1 \<in> {SubmittedValidatedT1 ex_id1, SubmittedT2Pending ex_id1} \<and>
     map s_id [d\<leftarrow>ugc_col w1. s_platform d = ''tt'' \<and>
                 s_post_hash d = ''tt:https://tiktok.com/@x/video/1''] = [ex_id1] \<and>
     submit_got_tier ex_cfg ex_now ex_id2 (ex_upd 8 ''T2'') ex_ud w1 =
       Inr (AlreadySubmitted ex_id1, END, w1)"
proof -
  have t1: "upper (strip (text_or_empty (ex_upd 7 ''T1''))) \<in> {''T1'', ''T2''}"
    by (simp add: ex_upd_def text_or_empty_def strip_def isspace_def upper_def upper_char_def)
  have t2: "upper (strip (text_or_empty (ex_upd 8 ''T2''))) \<in> {''T1'', ''T2''}"
    by (simp add: ex_upd_def text_or_empty_def strip_def isspace_def upper_def upper_char_def)
  have h: "''tt:https://tiktok.com/@x/video/1'' =
           sha256_str (\<lambda>b. b) (''tt'' @ '':'' @ lower ''https://tiktok.com/@x/video/1'')"
    by (simp add: sha256_str_def sha256_bytes_def encode_utf8_def utf8_char_def lower_def
          lower_char_def)
  show ?thesis
    by (rule resubmission_returns_first_id [OF t1 t2 h])
       (simp_all add: ex_ud_def)
qed

section \<open>Metrics proof and status lookup\<close>

lemma oid_nonempty: "oid s = Inr i \<Longrightarrow> s \<noteq> []"
  by (auto simp: oid_def split: if_splits)

lemma find_conj_first:
  "\<forall>d\<in>set pre. \<not> P d \<Longrightarrow> P x \<Longrightarrow> Q x \<Longrightarrow>
     find (\<lambda>d. P d \<and> Q d) (pre @ x # post) = Some x"
  by (induction pre) auto

lemma metrics_owned:
  assumes "ud_metrics_ugc_id ud = Some ugc_id" "oid ugc_id = Inr i"
      and "message_photo upd = Some b"
      and "ugc_col w = pre @ sub # post" "\<forall>d\<in>set pre. s_id d \<noteq> i" "s_id sub = i"
          "s_user_id sub = effective_user_id upd"
  shows "metrics_got_proof cfg H now upd ud w =
     Inr (T2Validated ugc_id, END,
          w\<lparr>ugc_col := pre @ sub\<lparr>s_metrics_proof_sha256 := Some (sha256_bytes H b),
                                  s_status := ''validated'',
                                  s_validated_at := Some (now 0),
                                  s_updated_at := now 1\<rparr> # post,
            ledger_col := create_reward_ledger cfg (now 2) (now 3) (effective_user_id upd)
                            ugc_id ''T2'' (ledger_col w)\<rparr>)"
proof -
  have f: "find (\<lambda>d. s_id d = i \<and> s_user_id d = effective_user_id upd) (ugc_col w) = Some sub"
    using assms(4-7)
      find_conj_first [of pre "\<lambda>d. s_id d = i" sub "\<lambda>d. s_user_id d = effective_user_id upd" post]
    by simp
  have u: "\<And>f. update_one (\<lambda>d. s_id d = i) f (ugc_col w) = pre @ f sub # post"
    using assms(4-6) update_one_first [of pre "\<lambda>d. s_id d = i" sub _ post] by simp
  show ?thesis
    using assms(1-3) oid_nonempty [OF assms(2)] f u
    by (simp add: metrics_got_proof_def Let_def find_one_def)
qed

lemma metrics_not_owned:
  assumes "ud_metrics_ugc_id ud = Some ugc_id" "oid ugc_id = Inr i"
      and "\<forall>d\<in>set (ugc_col w). s_id d = i \<longrightarrow> s_user_id d \<noteq> effective_user_id upd"
  shows "metrics_got_proof cfg H now upd ud w =
     (case message_photo upd of
        None \<Rightarrow> Inr (MetricsNotAPhoto, S_METRICS_PROOF, w)
      | Some b \<Rightarrow> Inr (UgcNotFound, END, w))"
proof -
  have "find (\<lambda>d. s_id d = i \<and> s_user_id d = effective_user_id upd) (ugc_col w) = None"
    using assms(3) by (auto simp: find_none_iff)
  then show ?thesis
    using assms(1,2) oid_nonempty [OF assms(2)]
    by (simp add: metrics_got_proof_def Let_def find_one_def split: option.splits)
qed

lemma status_not_owned:
  assumes "must_dm upd" "args upd = a # rest" "oid (strip a) = Inr i"
      and "\<forall>d\<in>set (ugc_col w). s_id d = i \<longrightarrow> s_user_id d \<noteq> effective_user_id upd"
  shows "status_cmd upd w = Inr NotFound"
proof -
  have "find (\<lambda>d. s_id d = i \<and> s_user_id d = effective_user_id upd) (ugc_col w) = None"
    using assms(4) by (auto simp: find_none_iff)
  then show ?thesis
    using assms(1-3) by (simp add: status_cmd_def Let_def find_one_def)
qed

text \<open>
  Claim C7. Let \<open>s\<close> be a well-formed submission id and let every submission with that
  id belong to a user other than \<open>uid\<close>. Then \<open>status_cmd\<close> of \<open>uid\<close> for \<open>s\<close> (in a
  private chat) replies "Not found.", and \<open>metrics_got_proof\<close> of \<open>uid\<close> for \<open>s\<close> with a
  photo replies that the submission was not found and ends the session, with no update
  and no ledger entry: the world is returned as it was. Both are what the same call
  gives on a store from which the submissions with that id have been removed. Without a
  photo the metrics step asks again, also without touching the world.
\<close>

theorem lookups_scoped_to_owner:
  assumes "oid s = Inr i"
      and "\<forall>d\<in>set (ugc_col w). s_id d = i \<longrightarrow> s_user_id d \<noteq> uid"
  shows
   "(\<forall>upd a rest.
       must_dm upd \<and> effective_user_id upd = uid \<and> args upd = a # rest \<and> strip a = s \<longrightarrow>
       status_cmd upd w = Inr NotFound \<and>
       status_cmd upd (w\<lparr>ugc_col := [d\<leftarrow>ugc_col w. s_id d \<noteq> i]\<rparr>) = Inr NotFound) \<and>
    (\<forall>upd ud b.
       effective_user_id upd = uid \<and> ud_metrics_ugc_id ud = Some s \<and>
       message_photo upd = Some b \<longrightarrow>
       metrics_got_proof cfg H now upd ud w = Inr (UgcNotFound, END, w) \<and>
       metrics_got_proof cfg H now upd ud (w\<lparr>ugc_col := [d\<leftarrow>ugc_col w. s_id d \<noteq> i]\<rparr>) =
         Inr (UgcNotFound, END, w\<lparr>ugc_col := [d\<leftarrow>ugc_col w. s_id d \<noteq> i]\<rparr>)) \<and>
    (\<forall>upd ud.
       effective_user_id upd = uid \<and> ud_metrics_ugc_id ud = Some s \<and>
       message_photo upd = None \<longrightarrow>
       metrics_got_proof cfg H now upd ud w = Inr (MetricsNotAPhoto, S_METRICS_PROOF, w))"
proof (intro conjI allI impI)
  fix upd :: update and a rest
  assume h: "must_dm upd \<and> effective_user_id upd = uid \<and> args upd = a # rest \<and> strip a = s"
  show "status_cmd upd w = Inr NotFound"
    using h assms status_not_owned [of upd a rest i w] by simp
  show "status_cmd upd (w\<lparr>ugc_col := [d\<leftarrow>ugc_col w. s_id d \<noteq> i]\<rparr>) = Inr NotFound"
    using h assms(1)
      status_not_owned [of upd a rest i "w\<lparr>ugc_col := [d\<leftarrow>ugc_col w. s_id d \<noteq> i]\<rparr>"]
    by simp
next
  fix upd :: update and ud :: user_data and b
  assume h: "effective_user_id upd = uid \<and> ud_metrics_ugc_id ud = Some s \<and>
       message_photo upd = Some b"
  show "metrics_got_proof cfg H now upd ud w = Inr (UgcNotFound, END, w)"
    using h assms metrics_not_owned [of ud s i w upd cfg H now] by simp
  show "metrics_got_proof cfg H now upd ud (w\<lparr>ugc_col := [d\<leftarrow>ugc_col w. s_id d \<noteq> i]\<rparr>) =
         Inr (UgcNotFound, END, w\<lparr>ugc_col := [d\<leftarrow>ugc_col w. s_id d \<noteq> i]\<rparr>)"
    using h assms(1)
      metrics_not_owned [of ud s i "w\<lparr>ugc_col := [d\<leftarrow>ugc_col w. s_id d \<noteq> i]\<rparr>" upd cfg H now]
    by simp
next
  fix upd :: update and ud :: user_data
  assume h: "effective_user_id upd = uid \<and> ud_metrics_ugc_id ud = Some s \<and>
       message_photo upd = None"
  show "metrics_got_proof cfg H now upd ud w = Inr (MetricsNotAPhoto, S_METRICS_PROOF, w)"
    using h assms metrics_not_owned [of ud s i w upd cfg H now] by simp
qed

theorem lookups_scoped_to_owner_witness:
  "oid ex_id1 = Inr ex_id1 \<and>
   status_cmd ((ex_upd 8 ''/status'')\<lparr>args := [ex_id1]\<rparr>)
     \<lparr>ugc_col = [ex_sub ex_id1 7 1000], code_col = [], ledger_col = []\<rparr> = Inr NotFound \<and>
   metrics_got_proof ex_cfg (\<lambda>b. b) ex_now ((ex_upd 8 [])\<lparr>message_photo := Some ''png''\<rparr>)
     (ex_ud\<lparr>ud_metrics_ugc_id := Some ex_id1\<rparr>)
     \<lparr>ugc_col = [ex_sub ex_id1 7 1000], code_col = [], ledger_col = []\<rparr> =
   Inr (UgcNotFound, END,
        \<lparr>ugc_col = [ex_sub ex_id1 7 1000], code_col = [], ledger_col = []\<rparr>)"
proof -
  let ?w = "\<lparr>ugc_col = [ex_sub ex_id1 7 1000], code_col = [], ledger_col = []\<rparr>"
  have o: "oid ex_id1 = Inr ex_id1"
    by (simp add: oid_def ex_id1_def is_hex_def lower_def lower_char_def)
  have n: "\<forall>d\<in>set (ugc_col ?w). s_id d = ex_id1 \<longrightarrow> s_user_id d \<noteq> 8"
    by (simp add: ex_sub_def)
  have st: "strip ex_id1 = ex_id1"
    by (simp add: strip_def ex_id1_def isspace_def)
  note t = lookups_scoped_to_owner [OF o n, of ex_cfg "\<lambda>b. b" ex_now]
  have a: "status_cmd ((ex_upd 8 ''/status'')\<lparr>args := [ex_id1]\<rparr>) ?w = Inr NotFound"
    using t st
    by (elim conjE allE [of _ "(ex_upd 8 ''/status'')\<lparr>args := [ex_id1]\<rparr>"]
          allE [of _ ex_id1] allE [of _ "[]"])
       (simp add: ex_upd_def must_dm_def)
  have b: "metrics_got_proof ex_cfg (\<lambda>b. b) ex_now
      ((ex_upd 8 [])\<lparr>message_photo := Some ''png''\<rparr>)
      (ex_ud\<lparr>ud_metrics_ugc_id := Some ex_id1\<rparr>) ?w = Inr (UgcNotFound, END, ?w)"
    using t
    by (elim conjE allE [of _ "(ex_upd 8 [])\<lparr>message_photo := Some ''png''\<rparr>"]
          allE [of _ "ex_ud\<lparr>ud_metrics_ugc_id := Some ex_id1\<rparr>"] allE [of _ "''png''"])
       (simp add: ex_upd_def ex_ud_def)
  from o a b show ?thesis by simp
qed

text \<open>
  Claim C9. The metrics step asks of the target document only that it belongs to the
  sender: nothing below constrains its claimed tier or its status. For every owned
  submission, a metrics photo sets the metrics-proof digest, sets the status to
  \<open>validated\<close> with a new validation time, and grants the \<open>T2\<close> entry (appended with
  amount 5 when the ledger has none for the id); every entry the ledger had is kept, so
  a submission validated as \<open>T1\<close>, with its \<open>T1\<close> entry, ends with both a \<open>T1\<close> and a
  \<open>T2\<close> entry.
\<close>

theorem metrics_ignores_tier_and_status:
  assumes "ud_metrics_ugc_id ud = Some ugc_id" "oid ugc_id = Inr i"
      and "message_photo upd = Some b"
      and "ugc_col w = pre @ sub # post" "\<forall>d\<in>set pre. s_id d \<noteq> i" "s_id sub = i"
          "s_user_id sub = effective_user_id upd"
  shows "\<exists>w'.
     metrics_got_proof cfg H now upd ud w = Inr (T2Validated ugc_id, END, w') \<and>
     ugc_col w' = pre @ sub\<lparr>s_metrics_proof_sha256 := Some (sha256_bytes H b),
                             s_status := ''validated'',
                             s_validated_at := Some (now 0),
                             s_updated_at := now 1\<rparr> # post \<and>
     code_col w' = code_col w \<and>
     (\<exists>e\<in>set (ledger_col w'). l_ugc_id e = ugc_id \<and> l_tier e = ''T2'') \<and>
     (\<forall>e\<in>set (ledger_col w). e \<in> set (ledger_col w')) \<and>
     (\<not> (\<exists>e\<in>set (ledger_col w). l_ugc_id e = ugc_id \<and> l_tier e = ''T2'') \<longrightarrow>
        ledger_col w' = ledger_col w @
          [\<lparr>l_user_id = effective_user_id upd, l_ugc_id = ugc_id, l_tier = ''T2'',
            l_amount = 5, l_drop_id = T2_DROP_ID cfg, l_status = ''pending_claim'',
            l_created_at = now 2, l_claimable_after = now 3,
            l_claimed_at = None, l_voucher_code = None\<rparr>])"
proof -
  let ?L = "create_reward_ledger cfg (now 2) (now 3) (effective_user_id upd) ugc_id ''T2''
              (ledger_col w)"
  let ?w = "w\<lparr>ugc_col := pre @ sub\<lparr>s_metrics_proof_sha256 := Some (sha256_bytes H b),
                                  s_status := ''validated'',
                                  s_validated_at := Some (now 0),
                                  s_updated_at := now 1\<rparr> # post,
            ledger_col := ?L\<rparr>"
  have r: "metrics_got_proof cfg H now upd ud w = Inr (T2Validated ugc_id, END, ?w)"
    using assms by (rule metrics_owned)
  have new: "\<not> (\<exists>e\<in>set (ledger_col w). l_ugc_id e = ugc_id \<and> l_tier e = ''T2'') \<Longrightarrow>
        ?L = ledger_col w @
          [\<lparr>l_user_id = effective_user_id upd, l_ugc_id = ugc_id, l_tier = ''T2'',
            l_amount = 5, l_drop_id = T2_DROP_ID cfg, l_status = ''pending_claim'',
            l_created_at = now 2, l_claimable_after = now 3,
            l_claimed_at = None, l_voucher_code = None\<rparr>]"
    using create_new [of "ledger_col w" ugc_id "''T2''" cfg "now 2" "now 3" "effective_user_id upd"]
    by simp
  have old: "\<exists>e\<in>set (ledger_col w). l_ugc_id e = ugc_id \<and> l_tier e = ''T2'' \<Longrightarrow>
        ?L = ledger_col w"
    by (rule create_old)
  have ex: "\<exists>e\<in>set ?L. l_ugc_id e = ugc_id \<and> l_tier e = ''T2''"
  proof (cases "\<exists>e\<in>set (ledger_col w). l_ugc_id e = ugc_id \<and> l_tier e = ''T2''")
    case True
    then show ?thesis using old by simp
  next
    case False
    then show ?thesis using new by simp
  qed
  have keep: "\<forall>e\<in>set (ledger_col w). e \<in> set ?L"
  proof (cases "\<exists>e\<in>set (ledger_col w). l_ugc_id e = ugc_id \<and> l_tier e = ''T2''")
    case True
    then show ?thesis using old by simp
  next
    case False
    then show ?thesis using new by simp
  qed
  show ?thesis
    using r ex keep new by (intro exI [of _ ?w]) simp
qed


theorem metrics_ignores_tier_and_status_witness:
  "\<exists>w'.
     metrics_got_proof ex_cfg (\<lambda>b. b) ex_now
       ((ex_upd 7 [])\<lparr>message_photo := Some ''png''\<rparr>)
       (ex_ud\<lparr>ud_metrics_ugc_id := Some ex_id1\<rparr>)
       \<lparr>ugc_col = [(ex_sub ex_id1 7 1000)\<lparr>s_tier_claimed := ''T1'', s_status := ''validated'',
                                            s_validated_at := Some 1003\<rparr>],
        code_col = [],
        ledger_col = [\<lparr>l_user_id = 7, l_ugc_id = ex_id1, l_tier = ''T1'', l_amount = 1,
                       l_drop_id = ''drop-1'', l_status = ''pending_claim'',
                       l_created_at = 1004, l_claimable_after = 1005,
                       l_claimed_at = None, l_voucher_code = None\<rparr>]\<rparr> =
       Inr (T2Validated ex_id1, END, w') \<and>
     ugc_col w' =
       [(ex_sub ex_id1 7 1000)\<lparr>s_tier_claimed := ''T1'', s_status := ''validated'',
                                s_validated_at := Some 2000, s_updated_at := 2001,
                                s_metrics_proof_sha256 := Some ''png''\<rparr>] \<and>
     ledger_col w' =
       [\<lparr>l_user_id = 7, l_ugc_id = ex_id1, l_tier = ''T1'', l_amount = 1,
         l_drop_id = ''drop-1'', l_status = ''pending_claim'',
         l_created_at = 1004, l_claimable_after = 1005,
         l_claimed_at = None, l_voucher_code = None\<rparr>,
        \<lparr>l_user_id = 7, l_ugc_id = ex_id1, l_tier = ''T2'', l_amount = 5,
         l_drop_id = ''drop-5'', l_status = ''pending_claim'',
         l_created_at = 2002, l_claimable_after = 2003,
         l_claimed_at = None, l_voucher_code = None\<rparr>]"
proof -
  let ?upd = "(ex_upd 7 [])\<lparr>message_photo := Some ''png''\<rparr>"
  let ?ud = "ex_ud\<lparr>ud_metrics_ugc_id := Some ex_id1\<rparr>"
  let ?sub = "(ex_sub ex_id1 7 1000)\<lparr>s_tier_claimed := ''T1'', s_status := ''validated'',
                                     s_validated_at := Some 1003\<rparr>"
  let ?e = "\<lparr>l_user_id = 7, l_ugc_id = ex_id1, l_tier = ''T1'', l_amount = 1,
             l_drop_id = ''drop-1'', l_status = ''pending_claim'',
             l_created_at = 1004, l_claimable_after = 1005,
             l_claimed_at = None, l_voucher_code = None\<rparr>"
  let ?w = "\<lparr>ugc_col = [?sub], code_col = [], ledger_col = [?e]\<rparr>"
  have o: "oid ex_id1 = Inr ex_id1"
    by (simp add: oid_def ex_id1_def is_hex_def lower_def lower_char_def)
  have u: "ud_metrics_ugc_id ?ud = Some ex_id1" by simp
  have ph: "message_photo ?upd = Some ''png''" by simp
  have c: "ugc_col ?w = [] @ ?sub # []" by simp
  have p: "\<forall>d\<in>set []. s_id d \<noteq> ex_id1" by simp
  have i: "s_id ?sub = ex_id1" by (simp add: ex_sub_def)
  have own: "s_user_id ?sub = effective_user_id ?upd" by (simp add: ex_sub_def ex_upd_def)
  obtain w' where
    r: "metrics_got_proof ex_cfg (\<lambda>b. b) ex_now ?upd ?ud ?w = Inr (T2Validated ex_id1, END, w')"
    and g: "ugc_col w' = [] @ ?sub\<lparr>s_metrics_proof_sha256 := Some (sha256_bytes (\<lambda>b. b) ''png''),
                             s_status := ''validated'',
                             s_validated_at := Some (ex_now 0),
                             s_updated_at := ex_now 1\<rparr> # []"
    and l: "\<not> (\<exists>e\<in>set (ledger_col ?w). l_ugc_id e = ex_id1 \<and> l_tier e = ''T2'') \<longrightarrow>
        ledger_col w' = ledger_col ?w @
          [\<lparr>l_user_id = effective_user_id ?upd, l_ugc_id = ex_id1, l_tier = ''T2'',
            l_amount = 5, l_drop_id = T2_DROP_ID ex_cfg, l_status = ''pending_claim'',
            l_created_at = ex_now 2, l_claimable_after = ex_now 3,
            l_claimed_at = None, l_voucher_code = None\<rparr>]"
    using metrics_ignores_tier_and_status [OF u o ph c p i own, of ex_cfg "\<lambda>b. b" ex_now]
    by blast
  have g': "ugc_col w' =
       [(ex_sub ex_id1 7 1000)\<lparr>s_tier_claimed := ''T1'', s_status := ''validated'',
                                s_validated_at := Some 2000, s_updated_at := 2001,
                                s_metrics_proof_sha256 := Some ''png''\<rparr>]"
    using g by (simp add: ex_sub_def ex_now_def sha256_bytes_def)
  have l': "ledger_col w' = [?e,
        \<lparr>l_user_id = 7, l_ugc_id = ex_id1, l_tier = ''T2'', l_amount = 5,
         l_drop_id = ''drop-5'', l_status = ''pending_claim'',
         l_created_at = 2002, l_claimable_after = 2003,
         l_claimed_at = None, l_voucher_code = None\<rparr>]"
    using l by (simp add: ex_upd_def ex_cfg_def ex_now_def)
  show ?thesis using r g' l' by (intro exI [of _ w']) simp
qed

section \<open>Tier split\<close>

text \<open>
  Claim C3. A commit that inserts its submission (fresh id, no document with the same
  \<open>(platform, post_hash)\<close>, no ledger entry for the id yet): with tier \<open>T1\<close> the commit
  itself leaves the new document \<open>validated\<close>, with its validation time, and appends the
  ledger entry of amount 1 (the \<open>T1\<close> drop id); with tier \<open>T2\<close> the new document stays
  \<open>submitted\<close>, without validation time or metrics digest, and the ledger is unchanged.
  When the owner then sends a metrics photo for the id, the document gets the metrics
  digest and becomes \<open>validated\<close>, and the ledger gets the entry of amount 5 (the \<open>T2\<close>
  drop id).
\<close>

theorem tier_split:
  assumes "ud_platform ud = Some p" "ud_post_url ud = Some url" "ud_post_hash ud = Some h"
          "ud_ugc_code ud = Some code" "ud_caption ud = Some cap"
          "ud_proof_sha256 ud = Some prf"
      and "\<forall>d\<in>set (ugc_col w). s_id d \<noteq> new_id \<and> \<not> (s_platform d = p \<and> s_post_hash d = h)"
      and "\<forall>e\<in>set (ledger_col w). l_ugc_id e \<noteq> new_id"
      and "oid new_id = Inr new_id"
  shows
   "(upper (strip (text_or_empty upd)) = ''T1'' \<longrightarrow>
       (\<exists>rec w1.
          submit_got_tier cfg now new_id upd ud w =
            Inr (SubmittedValidatedT1 new_id, END, w1) \<and>
          ugc_col w1 = ugc_col w @ [rec] \<and> s_id rec = new_id \<and>
          s_tier_claimed rec = ''T1'' \<and> s_status rec = ''validated'' \<and>
          s_validated_at rec = Some (now 3) \<and>
          ledger_col w1 = ledger_col w @
            [\<lparr>l_user_id = effective_user_id upd, l_ugc_id = new_id, l_tier = ''T1'',
              l_amount = 1, l_drop_id = T1_DROP_ID cfg, l_status = ''pending_claim'',
              l_created_at = now 4, l_claimable_after = now 5,
              l_claimed_at = None, l_voucher_code = None\<rparr>])) \<and>
    (upper (strip (text_or_empty upd)) = ''T2'' \<longrightarrow>
       (\<exists>rec w2.
          submit_got_tier cfg now new_id upd ud w =
            Inr (SubmittedT2Pending new_id, END, w2) \<and>
          ugc_col w2 = ugc_col w @ [rec] \<and> s_id rec = new_id \<and>
          s_tier_claimed rec = ''T2'' \<and> s_status rec = ''submitted'' \<and>
          s_validated_at rec = None \<and> s_metrics_proof_sha256 rec = None \<and>
          ledger_col w2 = ledger_col w \<and>
          (\<forall>now' upd' ud' b.
             effective_user_id upd' = effective_user_id upd \<and>
             message_photo upd' = Some b \<and> ud_metrics_ugc_id ud' = Some new_id \<longrightarrow>
             (\<exists>w3.
                metrics_got_proof cfg H now' upd' ud' w2 =
                  Inr (T2Validated new_id, END, w3) \<and>
                ugc_col w3 = ugc_col w @
                  [rec\<lparr>s_metrics_proof_sha256 := Some (sha256_bytes H b),
                       s_status := ''validated'',
                       s_validated_at := Some (now' 0),
                       s_updated_at := now' 1\<rparr>] \<and>
                ledger_col w3 = ledger_col w @
                  [\<lparr>l_user_id = effective_user_id upd, l_ugc_id = new_id, l_tier = ''T2'',
                    l_amount = 5, l_drop_id = T2_DROP_ID cfg, l_status = ''pending_claim'',
                    l_created_at = now' 2, l_claimable_after = now' 3,
                    l_claimed_at = None, l_voucher_code = None\<rparr>]))))"
proof (intro conjI impI)
  assume t: "upper (strip (text_or_empty upd)) = ''T1''"
  have k: "\<not> (\<exists>e\<in>set (ledger_col w). l_ugc_id e = new_id \<and> l_tier e = ''T1'')"
    using assms(8) by blast
  have "''T1'' \<in> {''T1'', ''T2''}" by simp
  from commit_insert [OF t this assms(1-7), of cfg now]
    create_new [OF k, of cfg "now 4" "now 5" "effective_user_id upd"]
  show "\<exists>rec w1.
          submit_got_tier cfg now new_id upd ud w =
            Inr (SubmittedValidatedT1 new_id, END, w1) \<and>
          ugc_col w1 = ugc_col w @ [rec] \<and> s_id rec = new_id \<and>
          s_tier_claimed rec = ''T1'' \<and> s_status rec = ''validated'' \<and>
          s_validated_at rec = Some (now 3) \<and>
          ledger_col w1 = ledger_col w @
            [\<lparr>l_user_id = effective_user_id upd, l_ugc_id = new_id, l_tier = ''T1'',
              l_amount = 1, l_drop_id = T1_DROP_ID cfg, l_status = ''pending_claim'',
              l_created_at = now 4, l_claimable_after = now 5,
              l_claimed_at = None, l_voucher_code = None\<rparr>]"
    by (simp add: Let_def)
next
  assume t: "upper (strip (text_or_empty upd)) = ''T2''"
  define rec where "rec = \<lparr>s_id = new_id, s_user_id = effective_user_id upd,
                 s_usernameLower =
                   lower (case effective_username upd of None \<Rightarrow> [] | Some n \<Rightarrow> n),
                 s_platform = p, s_post_url = url, s_post_hash = h, s_ugc_code = code,
                 s_caption = cap, s_proof_sha256 = prf, s_tier_claimed = ''T2'',
                 s_status = ''submitted'', s_created_at = now 0, s_updated_at = now 1,
                 s_metrics_proof_sha256 = None, s_validated_at = None\<rparr>"
  define w2 where "w2 = \<lparr>ugc_col = ugc_col w @ [rec],
       code_col = update_one (\<lambda>c. c_code c = code)
                     (\<lambda>c. c\<lparr>c_status := Some ''used'', c_used_at := Some (now 2),
                             c_ugc_id := Some new_id\<rparr>) (code_col w),
       ledger_col = ledger_col w\<rparr>"
  have "''T2'' \<in> {''T1'', ''T2''}" by simp
  from commit_insert [OF t this assms(1-7), of cfg now]
  have c: "submit_got_tier cfg now new_id upd ud w = Inr (SubmittedT2Pending new_id, END, w2)"
    by (simp add: Let_def rec_def w2_def)
  have rec: "s_id rec = new_id" "s_tier_claimed rec = ''T2''" "s_status rec = ''submitted''"
      "s_validated_at rec = None" "s_metrics_proof_sha256 rec = None"
      "s_user_id rec = effective_user_id upd"
    by (simp_all add: rec_def)
  have w2: "ugc_col w2 = ugc_col w @ [rec]" "ledger_col w2 = ledger_col w"
    by (simp_all add: w2_def)
  have pre: "\<forall>d\<in>set (ugc_col w). s_id d \<noteq> new_id" using assms(7) by blast
  have k: "\<not> (\<exists>e\<in>set (ledger_col w). l_ugc_id e = new_id \<and> l_tier e = ''T2'')"
    using assms(8) by blast
  have m: "\<exists>w3.
                metrics_got_proof cfg H now' upd' ud' w2 =
                  Inr (T2Validated new_id, END, w3) \<and>
                ugc_col w3 = ugc_col w @
                  [rec\<lparr>s_metrics_proof_sha256 := Some (sha256_bytes H b),
                       s_status := ''validated'',
                       s_validated_at := Some (now' 0),
                       s_updated_at := now' 1\<rparr>] \<and>
                ledger_col w3 = ledger_col w @
                  [\<lparr>l_user_id = effective_user_id upd, l_ugc_id = new_id, l_tier = ''T2'',
                    l_amount = 5, l_drop_id = T2_DROP_ID cfg, l_status = ''pending_claim'',
                    l_created_at = now' 2, l_claimable_after = now' 3,
                    l_claimed_at = None, l_voucher_code = None\<rparr>]"
    if h: "effective_user_id upd' = effective_user_id upd \<and>
             message_photo upd' = Some b \<and> ud_metrics_ugc_id ud' = Some new_id"
    for now' and upd' :: update and ud' :: user_data and b
  proof -
    have "metrics_got_proof cfg H now' upd' ud' w2 =
       Inr (T2Validated new_id, END,
          w2\<lparr>ugc_col := ugc_col w @ rec\<lparr>s_metrics_proof_sha256 := Some (sha256_bytes H b),
                                  s_status := ''validated'',
                                  s_validated_at := Some (now' 0),
                                  s_updated_at := now' 1\<rparr> # [],
            ledger_col := create_reward_ledger cfg (now' 2) (now' 3) (effective_user_id upd')
                            new_id ''T2'' (ledger_col w2)\<rparr>)"
      using h w2 pre rec
      by (intro metrics_owned [where i = new_id] assms(9)) simp_all
    then show ?thesis
      using h w2 create_new [OF k, of cfg "now' 2" "now' 3" "effective_user_id upd"]
      by simp
  qed
  show "\<exists>rec w2.
          submit_got_tier cfg now new_id upd ud w =
            Inr (SubmittedT2Pending new_id, END, w2) \<and>
          ugc_col w2 = ugc_col w @ [rec] \<and> s_id rec = new_id \<and>
          s_tier_claimed rec = ''T2'' \<and> s_status rec = ''submitted'' \<and>
          s_validated_at rec = None \<and> s_metrics_proof_sha256 rec = None \<and>
          ledger_col w2 = ledger_col w \<and>
          (\<forall>now' upd' ud' b.
             effective_user_id upd' = effective_user_id upd \<and>
             message_photo upd' = Some b \<and> ud_metrics_ugc_id ud' = Some new_id \<longrightarrow>
             (\<exists>w3.
                metrics_got_proof cfg H now' upd' ud' w2 =
                  Inr (T2Validated new_id, END, w3) \<and>
                ugc_col w3 = ugc_col w @
                  [rec\<lparr>s_metrics_proof_sha256 := Some (sha256_bytes H b),
                       s_status := ''validated'',
                       s_validated_at := Some (now' 0),
                       s_updated_at := now' 1\<rparr>] \<and>
                ledger_col w3 = ledger_col w @
                  [\<lparr>l_user_id = effective_user_id upd, l_ugc_id = new_id, l_tier = ''T2'',
                    l_amount = 5, l_drop_id = T2_DROP_ID cfg, l_status = ''pending_claim'',
                    l_created_at = now' 2, l_claimable_after = now' 3,
                    l_claimed_at = None, l_voucher_code = None\<rparr>]))"
    using c rec w2 m by (intro exI [of _ rec] exI [of _ w2]) blast
qed


theorem tier_split_witness:
  "(\<exists>rec w1.
      submit_got_tier ex_cfg ex_now ex_id1 (ex_upd 7 ''T1'') ex_ud
        \<lparr>ugc_col = [], code_col = [ex_code ''C1'' 7], ledger_col = []\<rparr> =
        Inr (SubmittedValidatedT1 ex_id1, END, w1) \<and>
      ugc_col w1 = [rec] \<and> s_status rec = ''validated'' \<and>
      s_validated_at rec = Some 2003 \<and>
      ledger_col w1 =
        [\<lparr>l_user_id = 7, l_ugc_id = ex_id1, l_tier = ''T1'', l_amount = 1,
          l_drop_id = ''drop-1'', l_status = ''pending_claim'',
          l_created_at = 2004, l_claimable_after = 2005,
          l_claimed_at = None, l_voucher_code = None\<rparr>]) \<and>
   (\<exists>rec w2 w3.
      submit_got_tier ex_cfg ex_now ex_id1 (ex_upd 7 ''T2'') ex_ud
        \<lparr>ugc_col = [], code_col = [ex_code ''C1'' 7], ledger_col = []\<rparr> =
        Inr (SubmittedT2Pending ex_id1, END, w2) \<and>
      ugc_col w2 = [rec] \<and> s_status rec = ''submitted'' \<and> ledger_col w2 = [] \<and>
      metrics_got_proof ex_cfg (\<lambda>b. b) ex_now
        ((ex_upd 7 [])\<lparr>message_photo := Some ''png''\<rparr>)
        (ex_ud\<lparr>ud_metrics_ugc_id := Some ex_id1\<rparr>) w2 =
        Inr (T2Validated ex_id1, END, w3) \<and>
      map s_status (ugc_col w3) = [''validated''] \<and>
      map s_metrics_proof_sha256 (ugc_col w3) = [Some ''png''] \<and>
      ledger_col w3 =
        [\<lparr>l_user_id = 7, l_ugc_id = ex_id1, l_tier = ''T2'', l_amount = 5,
          l_drop_id = ''drop-5'', l_status = ''pending_claim'',
          l_created_at = 2002, l_claimable_after = 2003,
          l_claimed_at = None, l_voucher_code = None\<rparr>])"
proof -
  let ?w = "\<lparr>ugc_col = [], code_col = [ex_code ''C1'' 7], ledger_col = []\<rparr>"
  let ?upd' = "(ex_upd 7 [])\<lparr>message_photo := Some ''png''\<rparr>"
  let ?ud' = "ex_ud\<lparr>ud_metrics_ugc_id := Some ex_id1\<rparr>"
  have o: "oid ex_id1 = Inr ex_id1"
    by (simp add: oid_def ex_id1_def is_hex_def lower_def lower_char_def)
  have f: "\<forall>d\<in>set (ugc_col ?w). s_id d \<noteq> ex_id1 \<and>
             \<not> (s_platform d = ''tt'' \<and> s_post_hash d = ''tt:https://tiktok.com/@x/video/1'')"
    by simp
  have l: "\<forall>e\<in>set (ledger_col ?w). l_ugc_id e \<noteq> ex_id1" by simp
  have d: "ud_platform ex_ud = Some ''tt''"
      "ud_post_url ex_ud = Some ''https://tiktok.com/@x/video/1''"
      "ud_post_hash ex_ud = Some ''tt:https://tiktok.com/@x/video/1''"
      "ud_ugc_code ex_ud = Some ''C1''" "ud_caption ex_ud = Some ''check this out!!''"
      "ud_proof_sha256 ex_ud = Some ''p1''"
    by (simp_all add: ex_ud_def)
  have t1: "upper (strip (text_or_empty (ex_upd 7 ''T1''))) = ''T1''"
    by (simp add: ex_upd_def text_or_empty_def strip_def isspace_def upper_def upper_char_def)
  have t2: "upper (strip (text_or_empty (ex_upd 7 ''T2''))) = ''T2''"
    by (simp add: ex_upd_def text_or_empty_def strip_def isspace_def upper_def upper_char_def)
  have a: "\<exists>rec w1.
      submit_got_tier ex_cfg ex_now ex_id1 (ex_upd 7 ''T1'') ex_ud ?w =
        Inr (SubmittedValidatedT1 ex_id1, END, w1) \<and>
      ugc_col w1 = [rec] \<and> s_status rec = ''validated'' \<and>
      s_validated_at rec = Some 2003 \<and>
      ledger_col w1 =
        [\<lparr>l_user_id = 7, l_ugc_id = ex_id1, l_tier = ''T1'', l_amount = 1,
          l_drop_id = ''drop-1'', l_status = ''pending_claim'',
          l_created_at = 2004, l_claimable_after = 2005,
          l_claimed_at = None, l_voucher_code = None\<rparr>]"
    using tier_split [OF d f l o, of "ex_upd 7 ''T1''" ex_cfg ex_now "\<lambda>b. b"] t1
    by (simp add: ex_upd_def ex_cfg_def ex_now_def) blast
  obtain rec w2 where
    c: "submit_got_tier ex_cfg ex_now ex_id1 (ex_upd 7 ''T2'') ex_ud ?w =
            Inr (SubmittedT2Pending ex_id1, END, w2)"
    and g: "ugc_col w2 = [rec]" "s_status rec = ''submitted''" "ledger_col w2 = []"
    and m: "\<forall>now' upd' ud' b.
             effective_user_id upd' = effective_user_id (ex_upd 7 ''T2'') \<and>
             message_photo upd' = Some b \<and> ud_metrics_ugc_id ud' = Some ex_id1 \<longrightarrow>
             (\<exists>w3.
                metrics_got_proof ex_cfg (\<lambda>b. b) now' upd' ud' w2 =
                  Inr (T2Validated ex_id1, END, w3) \<and>
                ugc_col w3 = ugc_col ?w @
                  [rec\<lparr>s_metrics_proof_sha256 := Some (sha256_bytes (\<lambda>b. b) b),
                       s_status := ''validated'',
                       s_validated_at := Some (now' 0),
                       s_updated_at := now' 1\<rparr>] \<and>
                ledger_col w3 = ledger_col ?w @
                  [\<lparr>l_user_id = effective_user_id (ex_upd 7 ''T2''), l_ugc_id = ex_id1,
                    l_tier = ''T2'',
                    l_amount = 5, l_drop_id = T2_DROP_ID ex_cfg, l_status = ''pending_claim'',
                    l_created_at = now' 2, l_claimable_after = now' 3,
                    l_claimed_at = None, l_voucher_code = None\<rparr>])"
    using tier_split [OF d f l o, of "ex_upd 7 ''T2''" ex_cfg ex_now "\<lambda>b. b"] t2
    by auto
  have "effective_user_id ?upd' = effective_user_id (ex_upd 7 ''T2'') \<and>
        message_photo ?upd' = Some ''png'' \<and> ud_metrics_ugc_id ?ud' = Some ex_id1"
    by (simp add: ex_upd_def)
  with m obtain w3 where
    r: "metrics_got_proof ex_cfg (\<lambda>b. b) ex_now ?upd' ?ud' w2 =
          Inr (T2Validated ex_id1, END, w3)"
    and u: "ugc_col w3 = ugc_col ?w @
                  [rec\<lparr>s_metrics_proof_sha256 := Some (sha256_bytes (\<lambda>b. b) ''png''),
                       s_status := ''validated'',
                       s_validated_at := Some (ex_now 0),
                       s_updated_at := ex_now 1\<rparr>]"
    and e: "ledger_col w3 = ledger_col ?w @
                  [\<lparr>l_user_id = effective_user_id (ex_upd 7 ''T2''), l_ugc_id = ex_id1,
                    l_tier = ''T2'',
                    l_amount = 5, l_drop_id = T2_DROP_ID ex_cfg, l_status = ''pending_claim'',
                    l_created_at = ex_now 2, l_claimable_after = ex_now 3,
                    l_claimed_at = None, l_voucher_code = None\<rparr>]"
    by blast
  have b: "\<exists>rec w2 w3.
      submit_got_tier ex_cfg ex_now ex_id1 (ex_upd 7 ''T2'') ex_ud ?w =
        Inr (SubmittedT2Pending ex_id1, END, w2) \<and>
      ugc_col w2 = [rec] \<and> s_status rec = ''submitted'' \<and> ledger_col w2 = [] \<and>
      metrics_got_proof ex_cfg (\<lambda>b. b) ex_now ?upd' ?ud' w2 =
        Inr (T2Validated ex_id1, END, w3) \<and>
      map s_status (ugc_col w3) = [''validated''] \<and>
      map s_metrics_proof_sha256 (ugc_col w3) = [Some ''png''] \<and>
      ledger_col w3 =
        [\<lparr>l_user_id = 7, l_ugc_id = ex_id1, l_tier = ''T2'', l_amount = 5,
          l_drop_id = ''drop-5'', l_status = ''pending_claim'',
          l_created_at = 2002, l_claimable_after = 2003,
          l_claimed_at = None, l_voucher_code = None\<rparr>]"
    using c g r u e
    by (intro exI [of _ rec] exI [of _ w2] exI [of _ w3])
       (simp add: ex_upd_def ex_cfg_def ex_now_def sha256_bytes_def)
  from a b show ?thesis by (rule conjI)
qed

section \<open>URL fingerprint\<close>

lemma dropWhile_pad:
  "\<forall>c\<in>set ws. P c \<Longrightarrow> dropWhile P (ws @ xs) = dropWhile P xs"
  by (induction ws) auto

lemma dropWhile_none: "\<forall>c\<in>set xs. \<not> P c \<Longrightarrow> dropWhile P xs = xs"
  by (cases xs) auto

lemma strip_pad:
  assumes "\<forall>c\<in>set w1. isspace c" "\<forall>c\<in>set w2. isspace c" "\<forall>c\<in>set u. \<not> isspace c"
  shows "strip (w1 @ u @ w2) = u"
proof (cases u)
  case Nil
  have "\<forall>c\<in>set (w1 @ w2). isspace c" using assms by auto
  then have a: "dropWhile isspace (w1 @ w2) = []" by (simp only: dropWhile_eq_Nil_conv)
  show ?thesis unfolding strip_def Nil append_Nil a by simp
next
  case (Cons a as)
  have "dropWhile isspace (w1 @ u @ w2) = dropWhile isspace (u @ w2)"
    using assms(1) by (rule dropWhile_pad)
  also have "\<dots> = u @ w2" using assms(3) Cons by simp
  finally have 1: "dropWhile isspace (w1 @ u @ w2) = u @ w2" .
  have "dropWhile isspace (rev w2 @ rev u) = dropWhile isspace (rev u)"
    using assms(2) by (intro dropWhile_pad) simp
  also have "\<dots> = rev u" using assms(3) by (intro dropWhile_none) simp
  finally have 2: "dropWhile isspace (rev (u @ w2)) = rev u" by simp
  show ?thesis unfolding strip_def 1 2 by simp
qed

lemma sub_fragment_takeWhile:
  "CHR 0x0A \<notin> set u \<Longrightarrow> sub_fragment u = takeWhile (\<lambda>c. c \<noteq> CHR ''#'') u"
  by (induction u) auto

lemma lower_char_idem: "lower_char (lower_char c) = lower_char c"
  by (auto simp: lower_char_def Let_def)

lemma lower_same:
  "list_all2 (\<lambda>a b. a = b \<or> lower_char a = b \<or> a = lower_char b) xs ys \<Longrightarrow>
     lower xs = lower ys"
  unfolding lower_def
  by (induction xs ys rule: list_all2_induct) (auto simp: lower_char_idem)

lemma detect_platform_lower:
  "lower a = lower b \<Longrightarrow> detect_platform a = detect_platform b"
  by (simp add: detect_platform_def)

text \<open>
  Claim C8. A URL is a text without white space; a message carries it with any white
  space around it. For such a message \<open>normalize_url\<close> gives the URL up to its first
  \<open>#\<close>, \<open>detect_platform\<close> reads the platform tag off the lower-cased result, and
  \<open>submit_got_url\<close>, when a platform \<open>p\<close> is detected, asks for the code and stores
  \<open>p\<close>, the normalized URL and, as \<open>post_hash\<close>, the digest of
  \<open>p:lower(normalized URL)\<close>; otherwise it asks for the URL again and stores nothing.
  So two such messages whose URLs agree, up to letter case, before their fragments get
  the same platform and, for every platform tag, the same fingerprint, and
  \<open>submit_got_url\<close> stores the same platform and \<open>post_hash\<close> for both.
\<close>

theorem url_fingerprint_normalization:
  assumes "\<forall>c\<in>set w1. isspace c" "\<forall>c\<in>set w1'. isspace c"
      and "\<forall>c\<in>set w2. isspace c" "\<forall>c\<in>set w2'. isspace c"
      and "\<forall>c\<in>set u1. \<not> isspace c" "\<forall>c\<in>set u2. \<not> isspace c"
      and "list_all2 (\<lambda>a b. a = b \<or> lower_char a = b \<or> a = lower_char b)
             (takeWhile (\<lambda>c. c \<noteq> CHR ''#'') u1) (takeWhile (\<lambda>c. c \<noteq> CHR ''#'') u2)"
  shows
   "normalize_url (w1 @ u1 @ w1') = takeWhile (\<lambda>c. c \<noteq> CHR ''#'') u1 \<and>
    normalize_url (w2 @ u2 @ w2') = takeWhile (\<lambda>c. c \<noteq> CHR ''#'') u2 \<and>
    detect_platform (normalize_url (w1 @ u1 @ w1')) =
      detect_platform (normalize_url (w2 @ u2 @ w2')) \<and>
    (\<forall>p. sha256_str H (p @ '':'' @ lower (normalize_url (w1 @ u1 @ w1'))) =
         sha256_str H (p @ '':'' @ lower (normalize_url (w2 @ u2 @ w2')))) \<and>
    (\<forall>upd1 upd2 ud.
       message_text upd1 = Some (w1 @ u1 @ w1') \<and> message_text upd2 = Some (w2 @ u2 @ w2') \<longrightarrow>
       ud_platform (snd (snd (submit_got_url H upd1 ud))) =
         ud_platform (snd (snd (submit_got_url H upd2 ud))) \<and>
       ud_post_hash (snd (snd (submit_got_url H upd1 ud))) =
         ud_post_hash (snd (snd (submit_got_url H upd2 ud)))) \<and>
    detect_platform (normalize_url (w1 @ u1 @ w1')) =
      (if contains ''tiktok.com'' (lower (takeWhile (\<lambda>c. c \<noteq> CHR ''#'') u1))
       then Some ''tt''
       else if contains ''instagram.com'' (lower (takeWhile (\<lambda>c. c \<noteq> CHR ''#'') u1))
       then Some ''ig''
       else if contains ''facebook.com'' (lower (takeWhile (\<lambda>c. c \<noteq> CHR ''#'') u1)) \<or>
               contains ''fb.watch'' (lower (takeWhile (\<lambda>c. c \<noteq> CHR ''#'') u1))
       then Some ''fb''
       else None) \<and>
    (\<forall>upd1 upd2 ud p.
       message_text upd1 = Some (w1 @ u1 @ w1') \<and> message_text upd2 = Some (w2 @ u2 @ w2') \<and>
       detect_platform (takeWhile (\<lambda>c. c \<noteq> CHR ''#'') u1) = Some p \<longrightarrow>
       submit_got_url H upd1 ud =
         (AskCode, S_CODE,
          ud\<lparr>ud_platform := Some p,
             ud_post_url := Some (takeWhile (\<lambda>c. c \<noteq> CHR ''#'') u1),
             ud_post_hash :=
               Some (sha256_str H (p @ '':'' @ lower (takeWhile (\<lambda>c. c \<noteq> CHR ''#'') u1)))\<rparr>) \<and>
       submit_got_url H upd2 ud =
         (AskCode, S_CODE,
          ud\<lparr>ud_platform := Some p,
             ud_post_url := Some (takeWhile (\<lambda>c. c \<noteq> CHR ''#'') u2),
             ud_post_hash :=
               Some (sha256_str H (p @ '':'' @ lower (takeWhile (\<lambda>c. c \<noteq> CHR ''#'') u1)))\<rparr>)) \<and>
    (\<forall>upd1 upd2 ud.
       message_text upd1 = Some (w1 @ u1 @ w1') \<and> message_text upd2 = Some (w2 @ u2 @ w2') \<and>
       detect_platform (takeWhile (\<lambda>c. c \<noteq> CHR ''#'') u1) = None \<longrightarrow>
       submit_got_url H upd1 ud = (InvalidUrl, S_PLATFORM_URL, ud) \<and>
       submit_got_url H upd2 ud = (InvalidUrl, S_PLATFORM_URL, ud))"
proof -
  let ?n1 = "takeWhile (\<lambda>c. c \<noteq> CHR ''#'') u1"
  let ?n2 = "takeWhile (\<lambda>c. c \<noteq> CHR ''#'') u2"
  have nl: "isspace (CHR 0x0A)" by (simp add: isspace_def)
  have n1: "normalize_url (w1 @ u1 @ w1') = ?n1"
  proof -
    have "CHR 0x0A \<notin> set u1" using assms(5) nl by blast
    then show ?thesis
      using strip_pad [OF assms(1,2,5)] by (simp add: normalize_url_def sub_fragment_takeWhile)
  qed
  have n2: "normalize_url (w2 @ u2 @ w2') = ?n2"
  proof -
    have "CHR 0x0A \<notin> set u2" using assms(6) nl by blast
    then show ?thesis
      using strip_pad [OF assms(3,4,6)] by (simp add: normalize_url_def sub_fragment_takeWhile)
  qed
  have lo': "lower ?n1 = lower ?n2" using assms(7) by (rule lower_same)
  have lo: "lower (normalize_url (w1 @ u1 @ w1')) = lower (normalize_url (w2 @ u2 @ w2'))"
    unfolding n1 n2 by (rule lo')
  have dp': "detect_platform ?n1 = detect_platform ?n2"
    using lo' by (rule detect_platform_lower)
  have dp: "detect_platform (normalize_url (w1 @ u1 @ w1')) =
      detect_platform (normalize_url (w2 @ u2 @ w2'))"
    unfolding n1 n2 by (rule dp')
  have sg: "ud_platform (snd (snd (submit_got_url H upd1 ud))) =
         ud_platform (snd (snd (submit_got_url H upd2 ud))) \<and>
       ud_post_hash (snd (snd (submit_got_url H upd1 ud))) =
         ud_post_hash (snd (snd (submit_got_url H upd2 ud)))"
    if "message_text upd1 = Some (w1 @ u1 @ w1') \<and> message_text upd2 = Some (w2 @ u2 @ w2')"
    for upd1 upd2 :: update and ud :: user_data
    using that lo dp
    by (cases "detect_platform (normalize_url (w2 @ u2 @ w2'))")
       (simp_all add: submit_got_url_def text_or_empty_def Let_def)
  have ch: "detect_platform (normalize_url (w1 @ u1 @ w1')) =
      (if contains ''tiktok.com'' (lower ?n1) then Some ''tt''
       else if contains ''instagram.com'' (lower ?n1) then Some ''ig''
       else if contains ''facebook.com'' (lower ?n1) \<or> contains ''fb.watch'' (lower ?n1)
       then Some ''fb''
       else None)"
    unfolding n1 by (simp add: detect_platform_def Let_def)
  have some: "submit_got_url H upd1 ud =
         (AskCode, S_CODE,
          ud\<lparr>ud_platform := Some p, ud_post_url := Some ?n1,
             ud_post_hash := Some (sha256_str H (p @ '':'' @ lower ?n1))\<rparr>) \<and>
       submit_got_url H upd2 ud =
         (AskCode, S_CODE,
          ud\<lparr>ud_platform := Some p, ud_post_url := Some ?n2,
             ud_post_hash := Some (sha256_str H (p @ '':'' @ lower ?n1))\<rparr>)"
    if "message_text upd1 = Some (w1 @ u1 @ w1') \<and> message_text upd2 = Some (w2 @ u2 @ w2') \<and>
       detect_platform ?n1 = Some p"
    for upd1 upd2 :: update and ud :: user_data and p
  proof -
    have "detect_platform ?n2 = Some p" using that dp' by simp
    then show ?thesis
      using that n1 n2 lo'
      by (simp add: submit_got_url_def text_or_empty_def Let_def)
  qed
  have none: "submit_got_url H upd1 ud = (InvalidUrl, S_PLATFORM_URL, ud) \<and>
       submit_got_url H upd2 ud = (InvalidUrl, S_PLATFORM_URL, ud)"
    if "message_text upd1 = Some (w1 @ u1 @ w1') \<and> message_text upd2 = Some (w2 @ u2 @ w2') \<and>
       detect_platform ?n1 = None"
    for upd1 upd2 :: update and ud :: user_data
  proof -
    have "detect_platform ?n2 = None" using that dp' by simp
    then show ?thesis
      using that n1 n2
      by (simp add: submit_got_url_def text_or_empty_def Let_def)
  qed
  have sgA: "\<forall>upd1 upd2 ud.
       message_text upd1 = Some (w1 @ u1 @ w1') \<and> message_text upd2 = Some (w2 @ u2 @ w2') \<longrightarrow>
       ud_platform (snd (snd (submit_got_url H upd1 ud))) =
         ud_platform (snd (snd (submit_got_url H upd2 ud))) \<and>
       ud_post_hash (snd (snd (submit_got_url H upd1 ud))) =
         ud_post_hash (snd (snd (submit_got_url H upd2 ud)))"
    using sg by blast
  have someA: "\<forall>upd1 upd2 ud p.
       message_text upd1 = Some (w1 @ u1 @ w1') \<and> message_text upd2 = Some (w2 @ u2 @ w2') \<and>
       detect_platform ?n1 = Some p \<longrightarrow>
       submit_got_url H upd1 ud =
         (AskCode, S_CODE,
          ud\<lparr>ud_platform := Some p, ud_post_url := Some ?n1,
             ud_post_hash := Some (sha256_str H (p @ '':'' @ lower ?n1))\<rparr>) \<and>
       submit_got_url H upd2 ud =
         (AskCode, S_CODE,
          ud\<lparr>ud_platform := Some p, ud_post_url := Some ?n2,
             ud_post_hash := Some (sha256_str H (p @ '':'' @ lower ?n1))\<rparr>)"
    using some by blast
  have noneA: "\<forall>upd1 upd2 ud.
       message_text upd1 = Some (w1 @ u1 @ w1') \<and> message_text upd2 = Some (w2 @ u2 @ w2') \<and>
       detect_platform ?n1 = None \<longrightarrow>
       submit_got_url H upd1 ud = (InvalidUrl, S_PLATFORM_URL, ud) \<and>
       submit_got_url H upd2 ud = (InvalidUrl, S_PLATFORM_URL, ud)"
    using none by blast
  have loA: "\<forall>p. sha256_str H (p @ '':'' @ lower (normalize_url (w1 @ u1 @ w1'))) =
         sha256_str H (p @ '':'' @ lower (normalize_url (w2 @ u2 @ w2')))"
    using lo by simp
  show ?thesis
    by (intro conjI n1 n2 dp loA sgA ch someA noneA)
qed

theorem url_fingerprint_normalization_witness:
  "normalize_url ('' '' @ ''https://TikTok.com/@x/video/1#comment'' @ ''  '') =
     ''https://TikTok.com/@x/video/1'' \<and>
   sha256_str (\<lambda>b. b)
     (''tt'' @ '':'' @
      lower (normalize_url ('' '' @ ''https://TikTok.com/@x/video/1#comment'' @ ''  ''))) =
   sha256_str (\<lambda>b. b)
     (''tt'' @ '':'' @ lower (normalize_url ([] @ ''https://tiktok.com/@x/video/1'' @ []))) \<and>
   detect_platform
     (normalize_url ('' '' @ ''https://TikTok.com/@x/video/1#comment'' @ ''  '')) =
     Some ''tt'' \<and>
   submit_got_url (\<lambda>b. b)
     (ex_upd 7 ('' '' @ ''https://TikTok.com/@x/video/1#comment'' @ ''  '')) ex_ud =
     (AskCode, S_CODE,
      ex_ud\<lparr>ud_platform := Some ''tt'',
            ud_post_url := Some ''https://TikTok.com/@x/video/1'',
            ud_post_hash := Some ''tt:https://tiktok.com/@x/video/1''\<rparr>) \<and>
   submit_got_url (\<lambda>b. b) (ex_upd 8 ([] @ ''https://tiktok.com/@x/video/1'' @ [])) ex_ud =
     (AskCode, S_CODE,
      ex_ud\<lparr>ud_platform := Some ''tt'',
            ud_post_url := Some ''https://tiktok.com/@x/video/1'',
            ud_post_hash := Some ''tt:https://tiktok.com/@x/video/1''\<rparr>)"
proof -
  let ?t1 = "'' '' @ ''https://TikTok.com/@x/video/1#comment'' @ ''  ''"
  let ?t2 = "[] @ ''https://tiktok.com/@x/video/1'' @ []"
  have s: "\<forall>c\<in>set '' ''. isspace c" "\<forall>c\<in>set ''  ''. isspace c" "\<forall>c\<in>set []. isspace c"
    by (simp_all add: isspace_def)
  have u1: "\<forall>c\<in>set ''https://TikTok.com/@x/video/1#comment''. \<not> isspace c"
    by (simp add: isspace_def)
  have u2: "\<forall>c\<in>set ''https://tiktok.com/@x/video/1''. \<not> isspace c"
    by (simp add: isspace_def)
  have r: "list_all2 (\<lambda>a b. a = b \<or> lower_char a = b \<or> a = lower_char b)
             (takeWhile (\<lambda>c. c \<noteq> CHR ''#'') ''https://TikTok.com/@x/video/1#comment'')
             (takeWhile (\<lambda>c. c \<noteq> CHR ''#'') ''https://tiktok.com/@x/video/1'')"
    by code_simp
  have tw1: "takeWhile (\<lambda>c. c \<noteq> CHR ''#'') ''https://TikTok.com/@x/video/1#comment'' =
      ''https://TikTok.com/@x/video/1''"
    by simp
  have tw2: "takeWhile (\<lambda>c. c \<noteq> CHR ''#'') ''https://tiktok.com/@x/video/1'' =
      ''https://tiktok.com/@x/video/1''"
    by simp
  have dpl: "detect_platform ''https://TikTok.com/@x/video/1'' = Some ''tt''"
    by code_simp
  have lw: "lower ''https://TikTok.com/@x/video/1'' = ''https://tiktok.com/@x/video/1''"
    by code_simp
  have hs: "sha256_str (\<lambda>b. b) (''tt'' @ '':'' @ ''https://tiktok.com/@x/video/1'') =
      ''tt:https://tiktok.com/@x/video/1''"
    by (simp add: sha256_str_def sha256_bytes_def encode_utf8_def utf8_char_def)
  note t = url_fingerprint_normalization [OF s(1) s(2) s(3) s(3) u1 u2 r, of "\<lambda>b. b"]
  have a: "normalize_url ?t1 = ''https://TikTok.com/@x/video/1''"
    using t [THEN conjunct1] unfolding tw1 .
  have "\<forall>p. sha256_str (\<lambda>b. b) (p @ '':'' @ lower (normalize_url ?t1)) =
     sha256_str (\<lambda>b. b) (p @ '':'' @ lower (normalize_url ?t2))"
    using t [THEN conjunct2, THEN conjunct2, THEN conjunct2, THEN conjunct1] .
  then have b: "sha256_str (\<lambda>b. b) (''tt'' @ '':'' @ lower (normalize_url ?t1)) =
     sha256_str (\<lambda>b. b) (''tt'' @ '':'' @ lower (normalize_url ?t2))"
    by (rule spec)
  have c: "detect_platform (normalize_url ?t1) = Some ''tt''"
    unfolding a by (rule dpl)
  have m: "message_text (ex_upd 7 ?t1) = Some ?t1 \<and> message_text (ex_upd 8 ?t2) = Some ?t2 \<and>
      detect_platform (takeWhile (\<lambda>c. c \<noteq> CHR ''#'') ''https://TikTok.com/@x/video/1#comment'') =
        Some ''tt''"
    unfolding tw1 dpl by (simp add: ex_upd_def)
  note g = t [THEN conjunct2, THEN conjunct2, THEN conjunct2, THEN conjunct2, THEN conjunct2,
      THEN conjunct2, THEN conjunct1, rule_format, OF m, of ex_ud]
  have d: "submit_got_url (\<lambda>b. b) (ex_upd 7 ?t1) ex_ud =
     (AskCode, S_CODE,
      ex_ud\<lparr>ud_platform := Some ''tt'',
            ud_post_url := Some ''https://TikTok.com/@x/video/1'',
            ud_post_hash := Some ''tt:https://tiktok.com/@x/video/1''\<rparr>)"
    using g [THEN conjunct1] unfolding tw1 lw hs .
  have e: "submit_got_url (\<lambda>b. b) (ex_upd 8 ?t2) ex_ud =
     (AskCode, S_CODE,
      ex_ud\<lparr>ud_platform := Some ''tt'',
            ud_post_url := Some ''https://tiktok.com/@x/video/1'',
            ud_post_hash := Some ''tt:https://tiktok.com/@x/video/1''\<rparr>)"
    using g [THEN conjunct2] unfolding tw1 tw2 lw hs .
  show ?thesis by (intro conjI a b c d e)
qed

section \<open>Malformed submission ids\<close>

text \<open>
  Claim C10 (fails on the code). \<open>_oid\<close> raises \<open>InvalidId\<close> on a text that is not 24
  hexadecimal digits, and neither \<open>status_cmd\<close> nor \<open>metrics_got_proof\<close> catches it: for
  the argument \<open>abc\<close> both handlers end with the exception instead of a reply, whatever
  the store holds.
\<close>

theorem malformed_id_raises:
  "status_cmd ((ex_upd 7 ''/status abc'')\<lparr>args := [''abc'']\<rparr>) w = Inl InvalidId \<and>
   metrics_cmd ((ex_upd 7 ''/metrics abc'')\<lparr>args := [''abc'']\<rparr>) ex_ud =
     (AskMetricsProof, S_METRICS_PROOF, ex_ud\<lparr>ud_metrics_ugc_id := Some ''abc''\<rparr>) \<and>
   metrics_got_proof ex_cfg H now ((ex_upd 7 [])\<lparr>message_photo := Some ''png''\<rparr>)
     (ex_ud\<lparr>ud_metrics_ugc_id := Some ''abc''\<rparr>) w = Inl InvalidId"
  by (simp add: status_cmd_def metrics_cmd_def metrics_got_proof_def must_dm_def ex_upd_def
        ex_ud_def oid_def strip_def isspace_def)

end
